theory Spec2Isabelle
  imports Complex_Main "HOL-Library.Word"
begin

section \<open>Common types\<close>

text \<open>
  An exception object (the payload of a C++ \<^verbatim>\<open>std::runtime_error\<close>), and the ways a
  modelled function can leave other than by returning: a failed \<^verbatim>\<open>assert\<close>, or a
  thrown exception.  A stored \<^verbatim>\<open>std::exception_ptr\<close> is an \<open>exn option\<close>, the null
  pointer being \<open>None\<close>; rethrowing a null pointer is behaviour the language leaves
  undefined.
\<close>

datatype exn = RuntimeError string

datatype error = AssertionFailed | Thrown exn | UndefinedBehaviour

text \<open>
  A C \<^verbatim>\<open>float\<close> as far as comparisons can tell: a number, an infinity or NaN.  The
  cross-fade settings are stored and compared, never computed with, so rounding has no
  part; the two zeros compare equal and are one value here.  \<open>float_less\<close> and
  \<open>float_le\<close> are \<^verbatim>\<open><\<close> and \<^verbatim>\<open><=\<close> on floats: every comparison with NaN is false.  (The
  mix ratio of a chunk is a \<open>real\<close>: the code subtracts it from 1, and the data model of
  the spec keeps it in [0,1] or negative.)
\<close>

datatype cfloat = Finite real | PlusInfinity | MinusInfinity | NaN

fun float_less :: "cfloat \<Rightarrow> cfloat \<Rightarrow> bool" where
  "float_less NaN y = False"
| "float_less x NaN = False"
| "float_less (Finite a) (Finite b) = (a < b)"
| "float_less (Finite a) PlusInfinity = True"
| "float_less (Finite a) MinusInfinity = False"
| "float_less PlusInfinity y = False"
| "float_less MinusInfinity MinusInfinity = False"
| "float_less MinusInfinity y = True"

fun float_le :: "cfloat \<Rightarrow> cfloat \<Rightarrow> bool" where
  "float_le NaN y = False"
| "float_le x NaN = False"
| "float_le (Finite a) (Finite b) = (a \<le> b)"
| "float_le (Finite a) PlusInfinity = True"
| "float_le (Finite a) MinusInfinity = False"
| "float_le PlusInfinity PlusInfinity = True"
| "float_le PlusInfinity y = False"
| "float_le MinusInfinity y = True"

type_synonym SampleFormat = "8 word"

text \<open>
  Modelled from the spec: the PCM format descriptor (sample rate, channels, sample
  format); AudioFormat.hxx is not among the sources, and the code below only copies
  the descriptor, compares it and hands its sample format to the mixer.
\<close>

record AudioFormat =
  sample_rate :: "32 word"
  format :: SampleFormat
  channels :: "8 word"

section \<open>The output source (src/output/Source.cxx)\<close>

text \<open>
  A chunk as the output source reads it.  \<open>chunk_data\<close> is the buffer
  \<^verbatim>\<open>ConstBuffer<void>(chunk.data, chunk.length)\<close>, that is the first \<^verbatim>\<open>length\<close> storage
  units of the chunk; the type \<open>'s\<close> of a storage unit is a byte (\<open>8 word\<close>) in the
  program.  \<open>'i\<close> is the replay gain info, \<open>'t\<close> the tag.  The fields carry the prefix
  \<open>chunk_\<close>, since the output source has a \<open>replay_gain_serial\<close> of its own.
\<close>

datatype ('s, 'i, 't) MusicChunk = MusicChunk
  (chunk_other: "('s, 'i, 't) MusicChunk option")
  (chunk_mix_ratio: real)
  (chunk_tag: "'t option")
  (chunk_replay_gain_info: 'i)
  (chunk_replay_gain_serial: "32 word")
  (chunk_data: "'s list")

text \<open>
  Modelled from the spec: the special replay gain serial that "disables replay-gain for
  this chunk"; the constant is declared in MusicChunk.hxx, which is not among the
  sources.  No theorem depends on its numeric value.
\<close>

definition IGNORE_REPLAY_GAIN :: "32 word" where
  "IGNORE_REPLAY_GAIN = - 1"

text \<open>
  The collaborators of the output source whose code is not among the sources, taken
  as parameters: the replay gain filter (state \<open>'f\<close>) with its two setters, the output
  filter chain (state \<open>'g\<close>), the mixer with its dither state \<open>'d\<close>, the pipe consumer
  (state \<open>'p\<close>), and the helpers the assertions call.  A filter run returns the
  filtered buffer or throws, and leaves a new filter state either way.  \<open>pcm_mix\<close>
  gets the two buffers cut to the number of units to mix and returns the new contents
  of the first one, or nothing when it returns \<^verbatim>\<open>false\<close>.
\<close>

record ('s, 'f, 'g, 'd, 'p, 'm, 'i, 't) externals =
  replay_gain_filter_set_mode :: "'m \<Rightarrow> 'f \<Rightarrow> 'f"
  replay_gain_filter_set_info :: "'i option \<Rightarrow> 'f \<Rightarrow> 'f"
  replay_gain_FilterPCM :: "'f \<Rightarrow> 's list \<Rightarrow> (error + 's list) \<times> 'f"
  FilterPCM :: "'g \<Rightarrow> 's list \<Rightarrow> (error + 's list) \<times> 'g"
  pcm_mix :: "'d \<Rightarrow> 's list \<Rightarrow> 's list \<Rightarrow> SampleFormat \<Rightarrow> real \<Rightarrow> 's list option \<times> 'd"
  sample_format_to_string :: "SampleFormat \<Rightarrow> string"
  pipe_Get :: "'p \<Rightarrow> ('s, 'i, 't) MusicChunk option \<times> 'p"
  pipe_Consume :: "('s, 'i, 't) MusicChunk \<Rightarrow> 'p \<Rightarrow> 'p"
  IsEmpty :: "('s, 'i, 't) MusicChunk \<Rightarrow> bool"
  CheckFormat :: "('s, 'i, 't) MusicChunk \<Rightarrow> AudioFormat \<Rightarrow> bool"
  GetFrameSize :: "AudioFormat \<Rightarrow> nat"

text \<open>
  The fields of \<^verbatim>\<open>AudioOutputSource\<close> that \<^verbatim>\<open>GetChunkData\<close>, \<^verbatim>\<open>FilterChunk\<close> and \<^verbatim>\<open>Fill\<close>
  use.  The two replay gain filters may be null; \<open>filter_instance\<close> is not null
  while the source is open.
\<close>

record ('s, 'f, 'g, 'd, 'p, 'm, 'i, 't) AudioOutputSource =
  in_audio_format :: AudioFormat
  replay_gain_mode :: 'm
  pipe :: 'p
  replay_gain_serial :: "32 word"
  other_replay_gain_serial :: "32 word"
  replay_gain_filter_instance :: "'f option"
  other_replay_gain_filter_instance :: "'f option"
  filter_instance :: 'g
  cross_fade_dither :: 'd
  current_chunk :: "('s, 'i, 't) MusicChunk option"
  pending_tag :: "'t option"
  pending_data :: "'s list"

text \<open>
  \<^verbatim>\<open>AudioOutputSource::GetChunkData(chunk, replay_gain_filter, replay_gain_serial_p)\<close>.
  The filter pointer and the serial behind the pointer are passed in and handed back
  updated, next to the buffer returned or the error raised.
\<close>

definition GetChunkData ::
  "('s, 'f, 'g, 'd, 'p, 'm, 'i, 't) externals \<Rightarrow>
   ('s, 'f, 'g, 'd, 'p, 'm, 'i, 't) AudioOutputSource \<Rightarrow>
   ('s, 'i, 't) MusicChunk \<Rightarrow> 'f option \<Rightarrow> 32 word \<Rightarrow>
   (error + 's list) \<times> 'f option \<times> 32 word" where
  "GetChunkData ext src chunk replay_gain_filter serial =
     (if IsEmpty ext chunk then (Inl AssertionFailed, replay_gain_filter, serial)
      else if \<not> CheckFormat ext chunk (in_audio_format src)
        then (Inl AssertionFailed, replay_gain_filter, serial)
      else if length (chunk_data chunk) mod GetFrameSize ext (in_audio_format src) \<noteq> 0
        then (Inl AssertionFailed, replay_gain_filter, serial)
      else
        (case replay_gain_filter of
           None \<Rightarrow> (Inr (chunk_data chunk), None, serial)
         | Some f \<Rightarrow>
             if chunk_data chunk = [] then (Inr (chunk_data chunk), Some f, serial)
             else
               let f1 = replay_gain_filter_set_mode ext (replay_gain_mode src) f;
                   update = (chunk_replay_gain_serial chunk \<noteq> serial \<and>
                             chunk_replay_gain_serial chunk \<noteq> IGNORE_REPLAY_GAIN);
                   f2 = (if update
                         then replay_gain_filter_set_info ext
                                (if chunk_replay_gain_serial chunk \<noteq> 0
                                 then Some (chunk_replay_gain_info chunk) else None) f1
                         else f1);
                   serial' = (if update then chunk_replay_gain_serial chunk else serial)
               in (case replay_gain_FilterPCM ext f2 (chunk_data chunk) of
                     (r, f3) \<Rightarrow> (r, Some f3, serial'))))"

text \<open>
  \<^verbatim>\<open>return filter_instance->FilterPCM(data)\<close>: the run of the output filter chain that
  ends \<^verbatim>\<open>FilterChunk\<close>.
\<close>

definition filter_instance_FilterPCM ::
  "('s, 'f, 'g, 'd, 'p, 'm, 'i, 't) externals \<Rightarrow>
   ('s, 'f, 'g, 'd, 'p, 'm, 'i, 't) AudioOutputSource \<Rightarrow> 's list \<Rightarrow>
   (error + 's list) \<times> ('s, 'f, 'g, 'd, 'p, 'm, 'i, 't) AudioOutputSource" where
  "filter_instance_FilterPCM ext src buf =
     (case FilterPCM ext (filter_instance src) buf of
        (r, g) \<Rightarrow> (r, src\<lparr>filter_instance := g\<rparr>))"

text \<open>
  \<^verbatim>\<open>pcm_mix\<close> writes its result over the first \<open>n\<close> units of the destination buffer, in
  place: the units behind them, and the size of the buffer, stay as they are.
\<close>

definition store_prefix :: "nat \<Rightarrow> 's list \<Rightarrow> 's list \<Rightarrow> 's list" where
  "store_prefix n new dest = take n (new @ drop (length new) dest) @ drop n dest"

text \<open>
  \<^verbatim>\<open>AudioOutputSource::FilterChunk(chunk)\<close>.  \<open>dest\<close> is the cross-fade buffer of
  \<open>other_data.size\<close> units, filled with the companion's data by \<^verbatim>\<open>memcpy\<close>; the mixer
  works on its first \<open>data.size\<close> units.
\<close>

definition FilterChunk ::
  "('s, 'f, 'g, 'd, 'p, 'm, 'i, 't) externals \<Rightarrow>
   ('s, 'f, 'g, 'd, 'p, 'm, 'i, 't) AudioOutputSource \<Rightarrow>
   ('s, 'i, 't) MusicChunk \<Rightarrow>
   (error + 's list) \<times> ('s, 'f, 'g, 'd, 'p, 'm, 'i, 't) AudioOutputSource" where
  "FilterChunk ext src chunk =
     (case GetChunkData ext src chunk (replay_gain_filter_instance src)
             (replay_gain_serial src) of
        (r, f, n) \<Rightarrow>
          let src1 = src\<lparr>replay_gain_filter_instance := f, replay_gain_serial := n\<rparr> in
          (case r of
             Inl e \<Rightarrow> (Inl e, src1)
           | Inr data \<Rightarrow>
               if data = [] then (Inr data, src1)
               else
                 (case chunk_other chunk of
                    None \<Rightarrow> filter_instance_FilterPCM ext src1 data
                  | Some other \<Rightarrow>
                      (case GetChunkData ext src1 other
                              (other_replay_gain_filter_instance src1)
                              (other_replay_gain_serial src1) of
                         (r', f', n') \<Rightarrow>
                           let src2 = src1\<lparr>other_replay_gain_filter_instance := f',
                                            other_replay_gain_serial := n'\<rparr> in
                           (case r' of
                              Inl e \<Rightarrow> (Inl e, src2)
                            | Inr other_data \<Rightarrow>
                                if other_data = [] then (Inr data, src2)
                                else
                                  let data' = (if length data > length other_data
                                               then take (length other_data) data else data);
                                      mix_ratio = (if chunk_mix_ratio chunk \<ge> 0
                                                   then 1 - chunk_mix_ratio chunk
                                                   else chunk_mix_ratio chunk)
                                  in (case pcm_mix ext (cross_fade_dither src2)
                                             (take (length data') other_data) data'
                                             (format (in_audio_format src2)) mix_ratio of
                                        (None, d) \<Rightarrow>
                                          (Inl (Thrown (RuntimeError
                                             (''Cannot cross-fade format '' @
                                              sample_format_to_string ext
                                                (format (in_audio_format src2))))),
                                           src2\<lparr>cross_fade_dither := d\<rparr>)
                                      | (Some mixed, d) \<Rightarrow>
                                          filter_instance_FilterPCM ext
                                            (src2\<lparr>cross_fade_dither := d\<rparr>)
                                            (store_prefix (length data') mixed
                                               other_data)))))))"

text \<open>
  \<^verbatim>\<open>AudioOutputSource::Fill(mutex)\<close>.  The mutex is released around the filter run and
  has no part in the sequential model.  The result is the value returned or the
  exception that leaves \<^verbatim>\<open>Fill\<close>, with the state the source is left in.
\<close>

definition Fill ::
  "('s, 'f, 'g, 'd, 'p, 'm, 'i, 't) externals \<Rightarrow>
   ('s, 'f, 'g, 'd, 'p, 'm, 'i, 't) AudioOutputSource \<Rightarrow>
   (error + bool) \<times> ('s, 'f, 'g, 'd, 'p, 'm, 'i, 't) AudioOutputSource" where
  "Fill ext src =
     (let src1 = (case current_chunk src of
                    None \<Rightarrow> src
                  | Some c \<Rightarrow>
                      if pending_tag src = None \<and> pending_data src = []
                      then src\<lparr>current_chunk := None,
                               pipe := pipe_Consume ext c (pipe src)\<rparr>
                      else src)
      in if current_chunk src1 \<noteq> None then (Inr True, src1)
         else
           (case pipe_Get ext (pipe src1) of
              (None, p) \<Rightarrow> (Inr False, src1\<lparr>pipe := p, current_chunk := None\<rparr>)
            | (Some c, p) \<Rightarrow>
                let src2 = src1\<lparr>pipe := p, current_chunk := Some c,
                                pending_tag := chunk_tag c\<rparr> in
                (case FilterChunk ext src2 c of
                   (Inl e, src3) \<Rightarrow> (Inl e, src3\<lparr>current_chunk := None\<rparr>)
                 | (Inr d, src3) \<Rightarrow> (Inr True, src3\<lparr>pending_data := d\<rparr>))))"

section \<open>The decoder control (DecoderControl.hxx)\<close>

datatype DecoderState =
  DecoderState_STOP | DecoderState_START | DecoderState_DECODE | DecoderState_ERROR

text \<open>
  Modelled from the spec: the pending command of the decoder, one of NONE, START, STOP
  and SEEK; DecoderCommand.hxx is not among the sources.
\<close>

datatype DecoderCommand =
  DecoderCommand_NONE | DecoderCommand_START | DecoderCommand_STOP | DecoderCommand_SEEK

text \<open>
  The fields of \<^verbatim>\<open>DecoderControl\<close> that the methods below use, with the prefix \<open>dc_\<close>
  (the player control has a \<open>state\<close>, a \<open>command\<close> and an \<open>error\<close> too).
\<close>

record DecoderControl =
  dc_state :: DecoderState
  dc_command :: DecoderCommand
  dc_error :: "exn option"
  dc_seek_error :: bool
  dc_seekable :: bool

text \<open>
  \<^verbatim>\<open>DecoderControl::CheckRethrowError() const\<close>: two assertions, then the stored
  exception is rethrown when the state is ERROR.  The method is \<^verbatim>\<open>const\<close>; the control
  is handed back as it was, so that calls can be put in sequence.
\<close>

definition DecoderControl_CheckRethrowError ::
  "DecoderControl \<Rightarrow> (error + unit) \<times> DecoderControl" where
  "DecoderControl_CheckRethrowError dc =
     (if dc_command dc \<noteq> DecoderCommand_NONE then (Inl AssertionFailed, dc)
      else if dc_state dc = DecoderState_ERROR then
        (case dc_error dc of
           None \<Rightarrow> (Inl AssertionFailed, dc)
         | Some e \<Rightarrow> (Inl (Thrown e), dc))
      else (Inr (), dc))"

definition DecoderControl_ClearError :: "DecoderControl \<Rightarrow> DecoderControl" where
  "DecoderControl_ClearError dc =
     (if dc_state dc = DecoderState_ERROR
      then dc\<lparr>dc_error := None, dc_state := DecoderState_STOP\<rparr>
      else dc)"

section \<open>The player control (src/player/Control.cxx, Control.hxx)\<close>

datatype PlayerState = PlayerState_STOP | PlayerState_PAUSE | PlayerState_PLAY

datatype PlayerCommand =
  PlayerCommand_NONE | PlayerCommand_EXIT | PlayerCommand_STOP | PlayerCommand_PAUSE
  | PlayerCommand_SEEK | PlayerCommand_CLOSE_AUDIO | PlayerCommand_UPDATE_AUDIO
  | PlayerCommand_QUEUE | PlayerCommand_CANCEL | PlayerCommand_REFRESH

datatype PlayerError = PlayerError_NONE | PlayerError_DECODER | PlayerError_OUTPUT

text \<open>
  Song times are only stored and copied by the code modelled here (Chrono.hxx is not
  among the sources): milliseconds as numbers.
\<close>

type_synonym SongTime = nat

type_synonym SignedSongTime = int

text \<open>
  Modelled from the spec: "CrossFadeSettings. duration (seconds), mixramp_db,
  mixramp_delay"; CrossFade.hxx is not among the sources.
\<close>

record CrossFadeSettings =
  duration :: cfloat
  mixramp_db :: cfloat
  mixramp_delay :: cfloat

text \<open>
  Modelled from the spec: the notification bus that "emits IDLE_PLAYER on state/song
  transitions and IDLE_OPTIONS on cross-fade/replay-gain setting changes"; Idle.hxx is
  not among the sources.  The events emitted are kept, in order, in \<open>idle_events\<close>.
\<close>

datatype idle_flag = IDLE_PLAYER | IDLE_OPTIONS

text \<open>
  \<^verbatim>\<open>struct player_status\<close>.  \<^verbatim>\<open>LockGetStatus\<close> declares it without an initialiser and
  assigns its fields one by one: a field that has not been assigned is \<open>None\<close>.
\<close>

record player_status =
  status_state :: PlayerState
  status_bit_rate :: "16 word option"
  status_audio_format :: "AudioFormat option"
  status_total_time :: "SignedSongTime option"
  status_elapsed_time :: "SongTime option"

text \<open>
  The fields of \<^verbatim>\<open>PlayerControl\<close> that the methods modelled below read and write, and
  the events sent to the notification bus.  Left out are the references and constants
  set by the constructor, the thread, the mutex and the condition variables,
  \<open>total_play_time\<close>, and \<open>replay_gain_mode\<close> with its setter, which writes nothing
  else.  The functions below work on the record scheme, so that what the player thread
  keeps for itself can ride in the extension.
\<close>

record 'song PlayerControl =
  command :: PlayerCommand
  state :: PlayerState
  error_type :: PlayerError
  error :: "exn option"
  next_song :: "'song option"
  tagged_song :: "'song option"
  border_pause :: bool
  occupied :: bool
  audio_format :: AudioFormat
  bit_rate :: "16 word"
  total_time :: SignedSongTime
  elapsed_time :: SongTime
  seek_time :: SongTime
  cross_fade :: CrossFadeSettings
  idle_events :: "idle_flag list"

definition idle_add ::
  "idle_flag \<Rightarrow> ('song, 'z) PlayerControl_scheme \<Rightarrow> ('song, 'z) PlayerControl_scheme" where
  "idle_add flag pc = pc\<lparr>idle_events := idle_events pc @ [flag]\<rparr>"

text \<open>
  \<^verbatim>\<open>CommandFinished()\<close>, called by the player thread: asserts that a command is
  pending, clears it and signals the client.
\<close>

definition CommandFinished ::
  "('song, 'z) PlayerControl_scheme \<Rightarrow> error + ('song, 'z) PlayerControl_scheme" where
  "CommandFinished pc =
     (if command pc = PlayerCommand_NONE then Inl AssertionFailed
      else Inr (pc\<lparr>command := PlayerCommand_NONE\<rparr>))"

text \<open>
  \<^verbatim>\<open>ClientWait()\<close> releases the mutex and blocks until the client condition is
  signalled.  The code of the player thread is not among the sources: what the rest of
  the program does to the shared state while the client is blocked is the parameter
  \<open>th\<close>.
\<close>

definition ClientWait ::
  "(('song, 'z) PlayerControl_scheme \<Rightarrow> ('song, 'z) PlayerControl_scheme) \<Rightarrow>
   ('song, 'z) PlayerControl_scheme \<Rightarrow> ('song, 'z) PlayerControl_scheme" where
  "ClientWait th pc = th pc"

text \<open>
  \<^verbatim>\<open>WaitCommandLocked()\<close>: \<^verbatim>\<open>while (command != PlayerCommand::NONE) ClientWait();\<close>.  The
  loop need not end; \<open>None\<close> is the client waiting for ever.
\<close>

partial_function (option) WaitCommandLocked ::
  "(('song, 'z) PlayerControl_scheme \<Rightarrow> ('song, 'z) PlayerControl_scheme) \<Rightarrow>
   ('song, 'z) PlayerControl_scheme \<Rightarrow> ('song, 'z) PlayerControl_scheme option" where
  "WaitCommandLocked th pc =
     (if command pc \<noteq> PlayerCommand_NONE then WaitCommandLocked th (ClientWait th pc)
      else Some pc)"

declare WaitCommandLocked.simps [code]

text \<open>
  The result of a client-side method that may wait for the player thread: \<open>None\<close>
  when it never returns, else the way it ends (returning, or with a failed assertion
  or an exception) and the state it leaves.
\<close>

type_synonym ('song, 'z) outcome =
  "((error + unit) \<times> ('song, 'z) PlayerControl_scheme) option"

definition and_then ::
  "('song, 'z) outcome \<Rightarrow> (('song, 'z) PlayerControl_scheme \<Rightarrow> ('song, 'z) outcome) \<Rightarrow>
   ('song, 'z) outcome" where
  "and_then r k =
     (case r of
        None \<Rightarrow> None
      | Some (Inl e, pc) \<Rightarrow> Some (Inl e, pc)
      | Some (Inr u, pc) \<Rightarrow> k pc)"

definition returns :: "('song, 'z) PlayerControl_scheme \<Rightarrow> ('song, 'z) outcome" where
  "returns pc = Some (Inr (), pc)"

text \<open>
  \<^verbatim>\<open>SynchronousCommand(cmd)\<close>: asserts that no command is pending, stores the command,
  signals the player thread and waits.
\<close>

definition SynchronousCommand ::
  "(('song, 'z) PlayerControl_scheme \<Rightarrow> ('song, 'z) PlayerControl_scheme) \<Rightarrow>
   PlayerCommand \<Rightarrow> ('song, 'z) PlayerControl_scheme \<Rightarrow> ('song, 'z) outcome" where
  "SynchronousCommand th cmd pc =
     (if command pc \<noteq> PlayerCommand_NONE then Some (Inl AssertionFailed, pc)
      else
        (case WaitCommandLocked th (pc\<lparr>command := cmd\<rparr>) of
           None \<Rightarrow> None
         | Some pc' \<Rightarrow> returns pc'))"

definition PauseLocked ::
  "(('song, 'z) PlayerControl_scheme \<Rightarrow> ('song, 'z) PlayerControl_scheme) \<Rightarrow>
   ('song, 'z) PlayerControl_scheme \<Rightarrow> ('song, 'z) outcome" where
  "PauseLocked th pc =
     (if state pc \<noteq> PlayerState_STOP
      then and_then (SynchronousCommand th PlayerCommand_PAUSE pc)
             (\<lambda>pc'. returns (idle_add IDLE_PLAYER pc'))
      else returns pc)"

definition LockPause ::
  "(('song, 'z) PlayerControl_scheme \<Rightarrow> ('song, 'z) PlayerControl_scheme) \<Rightarrow>
   ('song, 'z) PlayerControl_scheme \<Rightarrow> ('song, 'z) outcome" where
  "LockPause th pc = PauseLocked th pc"

definition LockSetPause ::
  "(('song, 'z) PlayerControl_scheme \<Rightarrow> ('song, 'z) PlayerControl_scheme) \<Rightarrow>
   bool \<Rightarrow> ('song, 'z) PlayerControl_scheme \<Rightarrow> ('song, 'z) outcome" where
  "LockSetPause th pause_flag pc =
     (case state pc of
        PlayerState_STOP \<Rightarrow> returns pc
      | PlayerState_PLAY \<Rightarrow> if pause_flag then PauseLocked th pc else returns pc
      | PlayerState_PAUSE \<Rightarrow> if \<not> pause_flag then PauseLocked th pc else returns pc)"

text \<open>
  \<^verbatim>\<open>LockGetStatus()\<close>: the status read, next to the outcome and the state left.
\<close>

definition read_status :: "('song, 'z) PlayerControl_scheme \<Rightarrow> player_status" where
  "read_status pc =
     (if state pc \<noteq> PlayerState_STOP
      then \<lparr>status_state = state pc,
            status_bit_rate = Some (bit_rate pc),
            status_audio_format = Some (audio_format pc),
            status_total_time = Some (total_time pc),
            status_elapsed_time = Some (elapsed_time pc)\<rparr>
      else \<lparr>status_state = state pc,
            status_bit_rate = None,
            status_audio_format = None,
            status_total_time = None,
            status_elapsed_time = None\<rparr>)"

definition LockGetStatus ::
  "(('song, 'z) PlayerControl_scheme \<Rightarrow> ('song, 'z) PlayerControl_scheme) \<Rightarrow>
   ('song, 'z) PlayerControl_scheme \<Rightarrow>
   ((error + player_status) \<times> ('song, 'z) PlayerControl_scheme) option" where
  "LockGetStatus th pc =
     (case (if \<not> occupied pc then SynchronousCommand th PlayerCommand_REFRESH pc
            else returns pc) of
        None \<Rightarrow> None
      | Some (Inl e, pc') \<Rightarrow> Some (Inl e, pc')
      | Some (Inr u, pc') \<Rightarrow> Some (Inr (read_status pc'), pc'))"

text \<open>The other client-side methods of Control.cxx and Control.hxx.\<close>

definition LockSynchronousCommand ::
  "(('song, 'z) PlayerControl_scheme \<Rightarrow> ('song, 'z) PlayerControl_scheme) \<Rightarrow>
   PlayerCommand \<Rightarrow> ('song, 'z) PlayerControl_scheme \<Rightarrow> ('song, 'z) outcome" where
  "LockSynchronousCommand th cmd pc = SynchronousCommand th cmd pc"

definition PlayerControl_ClearError ::
  "('song, 'z) PlayerControl_scheme \<Rightarrow> ('song, 'z) PlayerControl_scheme" where
  "PlayerControl_ClearError pc = pc\<lparr>error_type := PlayerError_NONE, error := None\<rparr>"

definition LockClearError ::
  "('song, 'z) PlayerControl_scheme \<Rightarrow> ('song, 'z) PlayerControl_scheme" where
  "LockClearError pc = PlayerControl_ClearError pc"

definition SetError ::
  "PlayerError \<Rightarrow> exn \<Rightarrow> ('song, 'z) PlayerControl_scheme \<Rightarrow> ('song, 'z) outcome" where
  "SetError type e pc =
     (if type = PlayerError_NONE then Some (Inl AssertionFailed, pc)
      else returns (pc\<lparr>error_type := type, error := Some e\<rparr>))"

definition SetOutputError ::
  "exn \<Rightarrow> ('song, 'z) PlayerControl_scheme \<Rightarrow> ('song, 'z) outcome" where
  "SetOutputError e pc =
     and_then (SetError PlayerError_OUTPUT e pc)
       (\<lambda>pc'. returns (pc'\<lparr>state := PlayerState_PAUSE\<rparr>))"

text \<open>
  \<^verbatim>\<open>PlayerControl::CheckRethrowError() const\<close> has no assertion: with an error type set
  and a null \<open>error\<close> it rethrows the null pointer.
\<close>

definition PlayerControl_CheckRethrowError ::
  "('song, 'z) PlayerControl_scheme \<Rightarrow> ('song, 'z) outcome" where
  "PlayerControl_CheckRethrowError pc =
     (if error_type pc \<noteq> PlayerError_NONE then
        (case error pc of
           None \<Rightarrow> Some (Inl UndefinedBehaviour, pc)
         | Some e \<Rightarrow> Some (Inl (Thrown e), pc))
      else returns pc)"

definition ApplyBorderPause ::
  "('song, 'z) PlayerControl_scheme \<Rightarrow> bool \<times> ('song, 'z) PlayerControl_scheme" where
  "ApplyBorderPause pc =
     (border_pause pc,
      if border_pause pc then pc\<lparr>state := PlayerState_PAUSE\<rparr> else pc)"

definition LockSetBorderPause ::
  "bool \<Rightarrow> ('song, 'z) PlayerControl_scheme \<Rightarrow> ('song, 'z) PlayerControl_scheme" where
  "LockSetBorderPause b pc = pc\<lparr>border_pause := b\<rparr>"

definition LockCancel ::
  "(('song, 'z) PlayerControl_scheme \<Rightarrow> ('song, 'z) PlayerControl_scheme) \<Rightarrow>
   ('song, 'z) PlayerControl_scheme \<Rightarrow> ('song, 'z) outcome" where
  "LockCancel th pc =
     and_then (LockSynchronousCommand th PlayerCommand_CANCEL pc)
       (\<lambda>pc'. if next_song pc' \<noteq> None then Some (Inl AssertionFailed, pc')
               else returns pc')"

definition LockStop ::
  "(('song, 'z) PlayerControl_scheme \<Rightarrow> ('song, 'z) PlayerControl_scheme) \<Rightarrow>
   ('song, 'z) PlayerControl_scheme \<Rightarrow> ('song, 'z) outcome" where
  "LockStop th pc =
     and_then (LockSynchronousCommand th PlayerCommand_CLOSE_AUDIO pc)
       (\<lambda>pc'. if next_song pc' \<noteq> None then Some (Inl AssertionFailed, pc')
               else returns (idle_add IDLE_PLAYER pc'))"

definition LockUpdateAudio ::
  "(('song, 'z) PlayerControl_scheme \<Rightarrow> ('song, 'z) PlayerControl_scheme) \<Rightarrow>
   ('song, 'z) PlayerControl_scheme \<Rightarrow> ('song, 'z) outcome" where
  "LockUpdateAudio th pc = LockSynchronousCommand th PlayerCommand_UPDATE_AUDIO pc"

text \<open>
  \<^verbatim>\<open>Kill()\<close>.  The thread handle is not part of the model: the assertion on it and the
  join leave no trace in the state.
\<close>

definition Kill ::
  "(('song, 'z) PlayerControl_scheme \<Rightarrow> ('song, 'z) PlayerControl_scheme) \<Rightarrow>
   ('song, 'z) PlayerControl_scheme \<Rightarrow> ('song, 'z) outcome" where
  "Kill th pc =
     and_then (LockSynchronousCommand th PlayerCommand_EXIT pc)
       (\<lambda>pc'. returns (idle_add IDLE_PLAYER pc'))"

definition LockSetTaggedSong ::
  "'song \<Rightarrow> ('song, 'z) PlayerControl_scheme \<Rightarrow> ('song, 'z) PlayerControl_scheme" where
  "LockSetTaggedSong song pc = pc\<lparr>tagged_song := Some song\<rparr>"

definition ClearTaggedSong ::
  "('song, 'z) PlayerControl_scheme \<Rightarrow> ('song, 'z) PlayerControl_scheme" where
  "ClearTaggedSong pc = pc\<lparr>tagged_song := None\<rparr>"

definition ReadTaggedSong ::
  "('song, 'z) PlayerControl_scheme \<Rightarrow> 'song option \<times> ('song, 'z) PlayerControl_scheme" where
  "ReadTaggedSong pc = (tagged_song pc, pc\<lparr>tagged_song := None\<rparr>)"

definition LockReadTaggedSong ::
  "('song, 'z) PlayerControl_scheme \<Rightarrow> 'song option \<times> ('song, 'z) PlayerControl_scheme" where
  "LockReadTaggedSong pc = ReadTaggedSong pc"

text \<open>
  The song handed to the next three methods is asserted not to be null; in the model
  a song is always there.
\<close>

definition EnqueueSongLocked ::
  "(('song, 'z) PlayerControl_scheme \<Rightarrow> ('song, 'z) PlayerControl_scheme) \<Rightarrow>
   'song \<Rightarrow> ('song, 'z) PlayerControl_scheme \<Rightarrow> ('song, 'z) outcome" where
  "EnqueueSongLocked th song pc =
     (if next_song pc \<noteq> None then Some (Inl AssertionFailed, pc)
      else SynchronousCommand th PlayerCommand_QUEUE
             (pc\<lparr>next_song := Some song, seek_time := 0\<rparr>))"

definition LockEnqueueSong ::
  "(('song, 'z) PlayerControl_scheme \<Rightarrow> ('song, 'z) PlayerControl_scheme) \<Rightarrow>
   'song \<Rightarrow> ('song, 'z) PlayerControl_scheme \<Rightarrow> ('song, 'z) outcome" where
  "LockEnqueueSong th song pc = EnqueueSongLocked th song pc"

definition SeekLocked ::
  "(('song, 'z) PlayerControl_scheme \<Rightarrow> ('song, 'z) PlayerControl_scheme) \<Rightarrow>
   'song \<Rightarrow> SongTime \<Rightarrow> ('song, 'z) PlayerControl_scheme \<Rightarrow> ('song, 'z) outcome" where
  "SeekLocked th song t pc =
     and_then (if next_song pc \<noteq> None
               then SynchronousCommand th PlayerCommand_CANCEL pc else returns pc)
       (\<lambda>pc1. if next_song pc1 \<noteq> None then Some (Inl AssertionFailed, pc1)
          else
            and_then (SynchronousCommand th PlayerCommand_SEEK
                        ((PlayerControl_ClearError pc1)\<lparr>next_song := Some song,
                                                        seek_time := t\<rparr>))
              (\<lambda>pc2. if next_song pc2 \<noteq> None then Some (Inl AssertionFailed, pc2)
                 else if error_type pc2 \<noteq> PlayerError_NONE then
                   (case error pc2 of
                      None \<Rightarrow> Some (Inl AssertionFailed, pc2)
                    | Some e \<Rightarrow> Some (Inl (Thrown e), pc2))
                 else if error pc2 \<noteq> None then Some (Inl AssertionFailed, pc2)
                 else returns pc2))"

definition LockSeek ::
  "(('song, 'z) PlayerControl_scheme \<Rightarrow> ('song, 'z) PlayerControl_scheme) \<Rightarrow>
   'song \<Rightarrow> SongTime \<Rightarrow> ('song, 'z) PlayerControl_scheme \<Rightarrow> ('song, 'z) outcome" where
  "LockSeek th song t pc =
     and_then (SeekLocked th song t pc) (\<lambda>pc'. returns (idle_add IDLE_PLAYER pc'))"

definition Play ::
  "(('song, 'z) PlayerControl_scheme \<Rightarrow> ('song, 'z) PlayerControl_scheme) \<Rightarrow>
   'song \<Rightarrow> ('song, 'z) PlayerControl_scheme \<Rightarrow> ('song, 'z) outcome" where
  "Play th song pc =
     and_then (SeekLocked th song 0 pc)
       (\<lambda>pc'. if state pc' = PlayerState_PAUSE then PauseLocked th pc' else returns pc')"

definition SetCrossFade ::
  "cfloat \<Rightarrow> ('song, 'z) PlayerControl_scheme \<Rightarrow> ('song, 'z) PlayerControl_scheme" where
  "SetCrossFade cross_fade_seconds pc =
     idle_add IDLE_OPTIONS
       (pc\<lparr>cross_fade := (cross_fade pc)
              \<lparr>duration := (if float_less cross_fade_seconds (Finite 0) then Finite 0
                            else cross_fade_seconds)\<rparr>\<rparr>)"

definition GetCrossFade :: "('song, 'z) PlayerControl_scheme \<Rightarrow> cfloat" where
  "GetCrossFade pc = duration (cross_fade pc)"

definition SetMixRampDb ::
  "cfloat \<Rightarrow> ('song, 'z) PlayerControl_scheme \<Rightarrow> ('song, 'z) PlayerControl_scheme" where
  "SetMixRampDb db pc =
     idle_add IDLE_OPTIONS (pc\<lparr>cross_fade := (cross_fade pc)\<lparr>mixramp_db := db\<rparr>\<rparr>)"

definition SetMixRampDelay ::
  "cfloat \<Rightarrow> ('song, 'z) PlayerControl_scheme \<Rightarrow> ('song, 'z) PlayerControl_scheme" where
  "SetMixRampDelay seconds pc =
     idle_add IDLE_OPTIONS (pc\<lparr>cross_fade := (cross_fade pc)\<lparr>mixramp_delay := seconds\<rparr>\<rparr>)"

section \<open>Parts modelled from the spec\<close>

text \<open>
  Modelled from the spec: the mixer \<^verbatim>\<open>pcm_mix\<close> (pcm/PcmMix.cxx is not among the sources).
  The spec gives the result of the cross-fade: "if \<^verbatim>\<open>mix_ratio \<ge> 0\<close>, output =
  companion\<cdot>(1-r) + primary\<cdot>r with dither; if negative, output = companion+primary
  (MixRamp additive)".  \<^verbatim>\<open>FilterChunk\<close> hands the mixer the companion as its first buffer,
  the primary as its second, and as portion \<open>1 - r\<close>, or \<open>r\<close> itself when it is negative
  ("the arguments to pcm_mix() are reversed").  So the mixer weighs its first buffer
  with the portion and its second with the rest, and adds the two when the portion is
  negative.  Samples are real numbers here, one per storage unit; dither and rounding
  are left out.
\<close>

definition pcm_mix_spec ::
  "'d \<Rightarrow> real list \<Rightarrow> real list \<Rightarrow> SampleFormat \<Rightarrow> real \<Rightarrow> real list option \<times> 'd" where
  "pcm_mix_spec dither buffer1 buffer2 fmt portion1 =
     (Some (map2 (\<lambda>a b. if 0 \<le> portion1 then a * portion1 + b * (1 - portion1) else a + b)
              buffer1 buffer2),
      dither)"

text \<open>
  Modelled from the spec: what the player thread does with a PAUSE command
  (player/Thread.cxx is not among the sources): "PAUSE: toggle state between
  PLAY\<leftrightarrow>PAUSE; pause/unpause outputs".  The thread \<open>th\<close> meets this when the wait
  of a client that has stored PAUSE ends, at a state that is the toggled one.
\<close>

definition toggled :: "PlayerState \<Rightarrow> PlayerState" where
  "toggled s =
     (case s of
        PlayerState_STOP \<Rightarrow> PlayerState_STOP
      | PlayerState_PAUSE \<Rightarrow> PlayerState_PLAY
      | PlayerState_PLAY \<Rightarrow> PlayerState_PAUSE)"

definition PAUSE_toggles ::
  "(('song, 'z) PlayerControl_scheme \<Rightarrow> ('song, 'z) PlayerControl_scheme) \<Rightarrow> bool" where
  "PAUSE_toggles th =
     (\<forall>pc. command pc = PlayerCommand_PAUSE \<longrightarrow>
        (\<exists>pc'. WaitCommandLocked th pc = Some pc' \<and> state pc' = toggled (state pc)))"

section \<open>Sequences of operations\<close>

text \<open>
  The methods of \<^verbatim>\<open>PlayerControl\<close> modelled above, as operations that can be put in
  sequence: all the methods of Control.cxx and Control.hxx that write a field of the
  model (a method that only locks and calls another one stands with it).  \<open>perform\<close>
  runs one and keeps the outcome and the state left, dropping any other value returned.  \<open>reachable th pc ops pc'\<close>: the state \<open>pc'\<close> is left by
  the operations \<open>ops\<close>, performed in this order from \<open>pc\<close> on, however each of them
  ended.
\<close>

datatype 'song operation =
  Op_Play 'song
  | Op_LockCancel
  | Op_LockStop
  | Op_LockUpdateAudio
  | Op_Kill
  | Op_LockPause
  | Op_LockSetPause bool
  | Op_LockSetBorderPause bool
  | Op_LockGetStatus
  | Op_SetError PlayerError exn
  | Op_SetOutputError exn
  | Op_LockClearError
  | Op_CheckRethrowError
  | Op_ApplyBorderPause
  | Op_LockSetTaggedSong 'song
  | Op_ClearTaggedSong
  | Op_LockReadTaggedSong
  | Op_LockEnqueueSong 'song
  | Op_LockSeek 'song SongTime
  | Op_SetCrossFade cfloat
  | Op_SetMixRampDb cfloat
  | Op_SetMixRampDelay cfloat
  | Op_CommandFinished

definition perform ::
  "(('song, 'z) PlayerControl_scheme \<Rightarrow> ('song, 'z) PlayerControl_scheme) \<Rightarrow>
   'song operation \<Rightarrow> ('song, 'z) PlayerControl_scheme \<Rightarrow> ('song, 'z) outcome" where
  "perform th op pc =
     (case op of
        Op_Play song \<Rightarrow> Play th song pc
      | Op_LockCancel \<Rightarrow> LockCancel th pc
      | Op_LockStop \<Rightarrow> LockStop th pc
      | Op_LockUpdateAudio \<Rightarrow> LockUpdateAudio th pc
      | Op_Kill \<Rightarrow> Kill th pc
      | Op_LockPause \<Rightarrow> LockPause th pc
      | Op_LockSetPause pause_flag \<Rightarrow> LockSetPause th pause_flag pc
      | Op_LockSetBorderPause b \<Rightarrow> returns (LockSetBorderPause b pc)
      | Op_LockGetStatus \<Rightarrow>
          (case LockGetStatus th pc of
             None \<Rightarrow> None
           | Some (Inl e, pc') \<Rightarrow> Some (Inl e, pc')
           | Some (Inr status, pc') \<Rightarrow> returns pc')
      | Op_SetError type e \<Rightarrow> SetError type e pc
      | Op_SetOutputError e \<Rightarrow> SetOutputError e pc
      | Op_LockClearError \<Rightarrow> returns (LockClearError pc)
      | Op_CheckRethrowError \<Rightarrow> PlayerControl_CheckRethrowError pc
      | Op_ApplyBorderPause \<Rightarrow> returns (snd (ApplyBorderPause pc))
      | Op_LockSetTaggedSong song \<Rightarrow> returns (LockSetTaggedSong song pc)
      | Op_ClearTaggedSong \<Rightarrow> returns (ClearTaggedSong pc)
      | Op_LockReadTaggedSong \<Rightarrow> returns (snd (LockReadTaggedSong pc))
      | Op_LockEnqueueSong song \<Rightarrow> LockEnqueueSong th song pc
      | Op_LockSeek song t \<Rightarrow> LockSeek th song t pc
      | Op_SetCrossFade seconds \<Rightarrow> returns (SetCrossFade seconds pc)
      | Op_SetMixRampDb db \<Rightarrow> returns (SetMixRampDb db pc)
      | Op_SetMixRampDelay seconds \<Rightarrow> returns (SetMixRampDelay seconds pc)
      | Op_CommandFinished \<Rightarrow>
          (case CommandFinished pc of
             Inl e \<Rightarrow> Some (Inl e, pc)
           | Inr pc' \<Rightarrow> returns pc'))"

inductive reachable ::
  "(('song, 'z) PlayerControl_scheme \<Rightarrow> ('song, 'z) PlayerControl_scheme) \<Rightarrow>
   ('song, 'z) PlayerControl_scheme \<Rightarrow> 'song operation list \<Rightarrow>
   ('song, 'z) PlayerControl_scheme \<Rightarrow> bool"
  for th pc where
    start: "reachable th pc [] pc"
  | step: "reachable th pc ops pc1 \<Longrightarrow> perform th op pc1 = Some (r, pc2) \<Longrightarrow>
           reachable th pc (ops @ [op]) pc2"

text \<open>
  \<open>leaves P r\<close>: the state left with the outcome \<open>r\<close>, if there is one,
  satisfies \<open>P\<close>.
\<close>

definition leaves ::
  "(('song, 'z) PlayerControl_scheme \<Rightarrow> bool) \<Rightarrow> ('song, 'z) outcome \<Rightarrow> bool" where
  "leaves P r = (case r of None \<Rightarrow> True | Some (x, pc) \<Rightarrow> P pc)"

text \<open>
  What is asked of the rest of the program for the cross-fade duration: while a client
  waits, nobody else writes it.
\<close>

definition keeps_cross_fade_duration ::
  "(('song, 'z) PlayerControl_scheme \<Rightarrow> ('song, 'z) PlayerControl_scheme) \<Rightarrow> bool" where
  "keeps_cross_fade_duration th = (\<forall>pc. GetCrossFade (th pc) = GetCrossFade pc)"

section \<open>The player thread, from the spec\<close>






section \<open>Example states\<close>

text \<open>
  Concrete collaborators and states on which the properties below are evaluated.  The
  example replay gain filter keeps a scale factor as its state: \<^verbatim>\<open>set_info\<close> stores the
  factor (1 without info) and a filter run multiplies every byte by it.  The example
  filter chain hands its input on unchanged.  The example mixer adds the two buffers
  byte by byte and fails on sample format 0.  The example pipe is the list of the
  chunks still to come.
\<close>

definition example_externals ::
  "(8 word, nat, unit, unit, (8 word, nat, unit) MusicChunk list, unit, nat, unit) externals" where
  "example_externals =
     \<lparr>replay_gain_filter_set_mode = (\<lambda>m f. f),
      replay_gain_filter_set_info = (\<lambda>i f. case i of None \<Rightarrow> 1 | Some g \<Rightarrow> g),
      replay_gain_FilterPCM = (\<lambda>f buf. (Inr (map (\<lambda>b. of_nat f * b) buf), f)),
      FilterPCM = (\<lambda>g buf. (Inr buf, g)),
      pcm_mix = (\<lambda>d a b fmt r. if fmt = 0 then (None, d) else (Some (map2 (+) a b), d)),
      sample_format_to_string = (\<lambda>fmt. if fmt = 0 then ''undefined'' else ''s8''),
      pipe_Get = (\<lambda>p. case p of [] \<Rightarrow> (None, []) | c # cs \<Rightarrow> (Some c, cs)),
      pipe_Consume = (\<lambda>c p. p),
      IsEmpty = (\<lambda>c. chunk_data c = [] \<and> chunk_tag c = None),
      CheckFormat = (\<lambda>c f. True),
      GetFrameSize = (\<lambda>f. 1)\<rparr>"

definition example_source ::
  "(8 word, nat, unit, unit, (8 word, nat, unit) MusicChunk list, unit, nat, unit) AudioOutputSource" where
  "example_source =
     \<lparr>in_audio_format = \<lparr>sample_rate = 44100, format = 1, channels = 1\<rparr>,
      replay_gain_mode = (),
      pipe = [],
      replay_gain_serial = 1,
      other_replay_gain_serial = 0,
      replay_gain_filter_instance = Some 2,
      other_replay_gain_filter_instance = None,
      filter_instance = (),
      cross_fade_dither = (),
      current_chunk = None,
      pending_tag = None,
      pending_data = []\<rparr>"

definition song_chunk :: "(8 word, nat, unit) MusicChunk" where
  "song_chunk = MusicChunk None 0 None 2 1 [5]"

definition silence_chunk :: "(8 word, nat, unit) MusicChunk" where
  "silence_chunk = MusicChunk None 0 None 0 IGNORE_REPLAY_GAIN [1, 2, 3]"

definition next_chunk :: "(8 word, nat, unit) MusicChunk" where
  "next_chunk = MusicChunk None 0 None 0 0 [10, 20, 30, 40]"

definition fading_chunk :: "(8 word, nat, unit) MusicChunk" where
  "fading_chunk = MusicChunk (Some next_chunk) (- 1) None 2 1 [1, 2]"

definition unmixable_source ::
  "(8 word, nat, unit, unit, (8 word, nat, unit) MusicChunk list, unit, nat, unit) AudioOutputSource" where
  "unmixable_source =
     example_source\<lparr>in_audio_format := \<lparr>sample_rate = 44100, format = 0, channels = 1\<rparr>,
                    pipe := [fading_chunk]\<rparr>"

definition real_externals ::
  "(real, unit, unit, unit, (real, unit, unit) MusicChunk list, unit, unit, unit) externals" where
  "real_externals =
     \<lparr>replay_gain_filter_set_mode = (\<lambda>m f. f),
      replay_gain_filter_set_info = (\<lambda>i f. f),
      replay_gain_FilterPCM = (\<lambda>f buf. (Inr buf, f)),
      FilterPCM = (\<lambda>g buf. (Inr buf, g)),
      pcm_mix = pcm_mix_spec,
      sample_format_to_string = (\<lambda>fmt. ''float''),
      pipe_Get = (\<lambda>p. case p of [] \<Rightarrow> (None, []) | c # cs \<Rightarrow> (Some c, cs)),
      pipe_Consume = (\<lambda>c p. p),
      IsEmpty = (\<lambda>c. chunk_data c = [] \<and> chunk_tag c = None),
      CheckFormat = (\<lambda>c f. True),
      GetFrameSize = (\<lambda>f. 1)\<rparr>"

definition real_source ::
  "(real, unit, unit, unit, (real, unit, unit) MusicChunk list, unit, unit, unit) AudioOutputSource" where
  "real_source =
     \<lparr>in_audio_format = \<lparr>sample_rate = 44100, format = 5, channels = 1\<rparr>,
      replay_gain_mode = (),
      pipe = [],
      replay_gain_serial = 0,
      other_replay_gain_serial = 0,
      replay_gain_filter_instance = None,
      other_replay_gain_filter_instance = None,
      filter_instance = (),
      cross_fade_dither = (),
      current_chunk = None,
      pending_tag = None,
      pending_data = []\<rparr>"

definition real_fading_chunk :: "(real, unit, unit) MusicChunk" where
  "real_fading_chunk =
     MusicChunk (Some (MusicChunk None 0 None () 0 [8, 4, 2])) (1 / 4) None () 0 [4, 8]"

definition real_mixramp_chunk :: "(real, unit, unit) MusicChunk" where
  "real_mixramp_chunk =
     MusicChunk (Some (MusicChunk None 0 None () 0 [8, 4, 2])) (- 1) None () 0 [4, 8]"

text \<open>
  An example decoder in state ERROR.  An example player thread that finishes every
  command by the time the client looks again: it toggles the state on PAUSE, stops and
  drops the next song on CLOSE_AUDIO, drops the next song on CANCEL, moves the elapsed
  time on by a second on REFRESH, and on SEEK takes the next song and plays it from the
  seek time.  Example states of the player control.
\<close>

definition failed_decoder :: DecoderControl where
  "failed_decoder =
     \<lparr>dc_state = DecoderState_ERROR,
      dc_command = DecoderCommand_NONE,
      dc_error = Some (RuntimeError ''Failed to decode''),
      dc_seek_error = False,
      dc_seekable = False\<rparr>"

definition example_player_thread :: "string PlayerControl \<Rightarrow> string PlayerControl" where
  "example_player_thread pc =
     (case command pc of
        PlayerCommand_NONE \<Rightarrow> pc
      | PlayerCommand_PAUSE \<Rightarrow> pc\<lparr>state := toggled (state pc), command := PlayerCommand_NONE\<rparr>
      | PlayerCommand_CLOSE_AUDIO \<Rightarrow>
          pc\<lparr>state := PlayerState_STOP, next_song := None, command := PlayerCommand_NONE\<rparr>
      | PlayerCommand_CANCEL \<Rightarrow> pc\<lparr>next_song := None, command := PlayerCommand_NONE\<rparr>
      | PlayerCommand_REFRESH \<Rightarrow>
          pc\<lparr>elapsed_time := elapsed_time pc + 1000, command := PlayerCommand_NONE\<rparr>
      | PlayerCommand_SEEK \<Rightarrow>
          pc\<lparr>state := PlayerState_PLAY, next_song := None, elapsed_time := seek_time pc,
             command := PlayerCommand_NONE\<rparr>
      | _ \<Rightarrow> pc\<lparr>command := PlayerCommand_NONE\<rparr>)"

definition example_player :: "string PlayerControl" where
  "example_player =
     \<lparr>command = PlayerCommand_NONE,
      state = PlayerState_PLAY,
      error_type = PlayerError_NONE,
      error = None,
      next_song = None,
      tagged_song = None,
      border_pause = False,
      occupied = False,
      audio_format = \<lparr>sample_rate = 44100, format = 2, channels = 2\<rparr>,
      bit_rate = 320,
      total_time = 180000,
      elapsed_time = 5000,
      seek_time = 0,
      cross_fade = \<lparr>duration = Finite 0, mixramp_db = Finite 0,
                     mixramp_delay = Finite (- 1)\<rparr>,
      idle_events = []\<rparr>"

definition paused_player :: "string PlayerControl" where
  "paused_player =
     example_player\<lparr>state := PlayerState_PAUSE, idle_events := [IDLE_PLAYER]\<rparr>"

definition occupied_stopped_player :: "string PlayerControl" where
  "occupied_stopped_player = example_player\<lparr>state := PlayerState_STOP, occupied := True\<rparr>"

definition occupied_player :: "string PlayerControl" where
  "occupied_player = example_player\<lparr>occupied := True\<rparr>"




section \<open>Properties of the output source\<close>

lemmas example_defs = example_externals_def example_source_def song_chunk_def silence_chunk_def
  next_chunk_def fading_chunk_def unmixable_source_def IGNORE_REPLAY_GAIN_def

lemmas real_example_defs = real_externals_def real_source_def real_fading_chunk_def
  real_mixramp_chunk_def

text \<open>
  \<^verbatim>\<open>GetChunkData\<close> reads two fields of the source only, so the serials and filter
  pointers that \<^verbatim>\<open>FilterChunk\<close> has updated in between do not matter to it.
\<close>

lemma GetChunkData_reads:
  "in_audio_format src' = in_audio_format src \<Longrightarrow> replay_gain_mode src' = replay_gain_mode src \<Longrightarrow>
   GetChunkData ext src' chunk f n = GetChunkData ext src chunk f n"
  unfolding GetChunkData_def by (erule ssubst, erule ssubst, rule refl)

lemma length_store_prefix: "n \<le> length dest \<Longrightarrow> length (store_prefix n new dest) = length dest"
  by (simp add: store_prefix_def)

lemma drop_store_prefix: "n \<le> length dest \<Longrightarrow> drop n (store_prefix n new dest) = drop n dest"
  by (simp add: store_prefix_def)

lemma nth_store_prefix:
  "i < n \<Longrightarrow> n \<le> length new \<Longrightarrow> store_prefix n new dest ! i = new ! i"
  by (simp add: store_prefix_def nth_append)

text \<open>
  The cross-fade path of \<^verbatim>\<open>FilterChunk\<close>: both chunks yield data, the primary is cut to
  the companion's size if it is longer, and the mixer runs over the first
  \<open>min (length data) (length other_data)\<close> units of a copy of the companion's data.
\<close>

lemma FilterChunk_cross_fade:
  assumes "GetChunkData ext src chunk (replay_gain_filter_instance src) (replay_gain_serial src)
             = (Inr data, f, n)"
    and "data \<noteq> []"
    and "chunk_other chunk = Some other"
    and "GetChunkData ext src other (other_replay_gain_filter_instance src)
           (other_replay_gain_serial src) = (Inr other_data, f', n')"
    and "other_data \<noteq> []"
  shows "FilterChunk ext src chunk =
     (case pcm_mix ext (cross_fade_dither src)
             (take (min (length data) (length other_data)) other_data)
             (take (min (length data) (length other_data)) data)
             (format (in_audio_format src))
             (if 0 \<le> chunk_mix_ratio chunk then 1 - chunk_mix_ratio chunk
              else chunk_mix_ratio chunk) of
        (None, d) \<Rightarrow>
          (Inl (Thrown (RuntimeError (''Cannot cross-fade format '' @
                  sample_format_to_string ext (format (in_audio_format src))))),
           src\<lparr>replay_gain_filter_instance := f, replay_gain_serial := n,
               other_replay_gain_filter_instance := f', other_replay_gain_serial := n',
               cross_fade_dither := d\<rparr>)
      | (Some mixed, d) \<Rightarrow>
          filter_instance_FilterPCM ext
            (src\<lparr>replay_gain_filter_instance := f, replay_gain_serial := n,
                other_replay_gain_filter_instance := f', other_replay_gain_serial := n',
                cross_fade_dither := d\<rparr>)
            (store_prefix (min (length data) (length other_data)) mixed other_data))"
proof -
  let ?src1 = "src\<lparr>replay_gain_filter_instance := f, replay_gain_serial := n\<rparr>"
  have g2: "GetChunkData ext ?src1 other (other_replay_gain_filter_instance ?src1)
           (other_replay_gain_serial ?src1) = (Inr other_data, f', n')"
    using assms(4) by (simp add: GetChunkData_reads [of ?src1 src])
  have m: "(if length other_data < length data then take (length other_data) data else data)
        = take (min (length data) (length other_data)) data"
    by (simp add: min_def)
  have l: "length (take (min (length data) (length other_data)) data) = min (length data) (length other_data)"
    by simp
  show ?thesis
    unfolding FilterChunk_def assms(1)
    apply (simp only: prod.case Let_def sum.case assms(2) assms(3) if_False option.case g2 assms(5) m l)
    apply (simp split: prod.splits option.splits)
    done
qed

subsection \<open>C1: chunks with the replay gain serial IGNORE\<close>

text \<open>
  Claim C1 says that a chunk whose serial is \<^verbatim>\<open>IGNORE_REPLAY_GAIN\<close> comes back from
  \<^verbatim>\<open>GetChunkData\<close> with its bytes untouched by the gain filter, even when a filter is
  installed.  It does not.  A chunk of a song with serial 1 and gain 2 sets the example
  filter to scale 2; the bytes 1, 2, 3 of a chunk with the serial \<^verbatim>\<open>IGNORE_REPLAY_GAIN\<close>
  that comes next go through the filter all the same and come back as 2, 4, 6.
\<close>

theorem GetChunkData_IGNORE_counterexample:
  "GetChunkData example_externals example_source song_chunk (Some 1) 0
     = (Inr [10], Some 2, 1) \<and>
   chunk_replay_gain_serial silence_chunk = IGNORE_REPLAY_GAIN \<and>
   chunk_data silence_chunk = [1, 2, 3] \<and>
   GetChunkData example_externals example_source silence_chunk (Some 2) 1
     = (Inr [2, 4, 6], Some 2, 1)"
  by (simp add: GetChunkData_def example_defs)

text \<open>
  Claim C1, as amended: for a chunk whose serial is \<^verbatim>\<open>IGNORE_REPLAY_GAIN\<close>, \<^verbatim>\<open>GetChunkData\<close>
  never calls \<^verbatim>\<open>replay_gain_filter_set_info\<close> and hands the stored serial back unchanged.
  Without a replay gain filter, or with empty data, the chunk's bytes are returned as
  they are; with a filter installed and data to filter, the mode is set and the bytes
  go through the filter's \<^verbatim>\<open>FilterPCM\<close>, with the info an earlier chunk has left there.
\<close>

theorem GetChunkData_IGNORE:
  assumes "chunk_replay_gain_serial chunk = IGNORE_REPLAY_GAIN"
  shows "GetChunkData ext src chunk replay_gain_filter serial =
     (if IsEmpty ext chunk \<or> \<not> CheckFormat ext chunk (in_audio_format src) \<or>
         length (chunk_data chunk) mod GetFrameSize ext (in_audio_format src) \<noteq> 0
      then (Inl AssertionFailed, replay_gain_filter, serial)
      else
        (case replay_gain_filter of
           None \<Rightarrow> (Inr (chunk_data chunk), None, serial)
         | Some f \<Rightarrow>
             if chunk_data chunk = [] then (Inr (chunk_data chunk), Some f, serial)
             else
               (case replay_gain_FilterPCM ext
                       (replay_gain_filter_set_mode ext (replay_gain_mode src) f)
                       (chunk_data chunk) of
                  (r, f') \<Rightarrow> (r, Some f', serial))))"
  using assms by (simp add: GetChunkData_def Let_def split: option.splits)

theorem GetChunkData_IGNORE_witness:
  "chunk_replay_gain_serial silence_chunk = IGNORE_REPLAY_GAIN \<and>
   GetChunkData example_externals example_source silence_chunk (Some 2) 1
     = (Inr [2, 4, 6], Some 2, 1) \<and>
   GetChunkData example_externals example_source silence_chunk None 1
     = (Inr [1, 2, 3], None, 1)"
proof -
  have s: "chunk_replay_gain_serial silence_chunk = IGNORE_REPLAY_GAIN"
    by (simp add: silence_chunk_def)
  show ?thesis
    using GetChunkData_IGNORE [OF s, of example_externals example_source "Some 2" 1]
      GetChunkData_IGNORE [OF s, of example_externals example_source None 1]
    by (simp add: example_defs)
qed

subsection \<open>C2: the size of the cross-faded buffer\<close>

text \<open>
  Claim C2 says that the buffer \<^verbatim>\<open>FilterChunk\<close> hands to the filter chain has the size
  \<open>min\<close> of the two filtered sizes.  With a primary of 2 bytes and a companion of 4 the
  buffer has 4 bytes: the companion's trailer is kept.  (The example filter chain hands
  its input on unchanged, so the buffer is also what \<^verbatim>\<open>FilterChunk\<close> returns.)
\<close>

theorem FilterChunk_size_counterexample:
  "chunk_other fading_chunk = Some next_chunk \<and>
   fst (GetChunkData example_externals example_source fading_chunk
          (replay_gain_filter_instance example_source) (replay_gain_serial example_source))
     = Inr [2, 4] \<and>
   fst (GetChunkData example_externals example_source next_chunk
          (other_replay_gain_filter_instance example_source)
          (other_replay_gain_serial example_source))
     = Inr [10, 20, 30, 40] \<and>
   fst (FilterChunk example_externals example_source fading_chunk) = Inr [12, 24, 30, 40] \<and>
   length [12, 24, 30, 40 :: 8 word]
     \<noteq> min (length [2, 4 :: 8 word]) (length [10, 20, 30, 40 :: 8 word])"
  by (simp add: example_defs GetChunkData_def FilterChunk_def filter_instance_FilterPCM_def store_prefix_def)

text \<open>
  Claim C2, as amended: when a chunk has a companion, both yield data and the mixer
  succeeds, the buffer handed to the filter chain has exactly the size of the companion's
  filtered data.  The mixer has worked on its first \<open>min (length data) (length other_data)\<close>
  units; behind them the buffer holds the companion's data as it was.
\<close>

theorem FilterChunk_size:
  assumes "GetChunkData ext src chunk (replay_gain_filter_instance src) (replay_gain_serial src)
             = (Inr data, f, n)"
    and "data \<noteq> []"
    and "chunk_other chunk = Some other"
    and "GetChunkData ext src other (other_replay_gain_filter_instance src)
           (other_replay_gain_serial src) = (Inr other_data, f', n')"
    and "other_data \<noteq> []"
    and "pcm_mix ext (cross_fade_dither src)
           (take (min (length data) (length other_data)) other_data)
           (take (min (length data) (length other_data)) data)
           (format (in_audio_format src))
           (if 0 \<le> chunk_mix_ratio chunk then 1 - chunk_mix_ratio chunk
            else chunk_mix_ratio chunk) = (Some mixed, d)"
  shows "FilterChunk ext src chunk =
           filter_instance_FilterPCM ext
             (src\<lparr>replay_gain_filter_instance := f, replay_gain_serial := n,
                 other_replay_gain_filter_instance := f', other_replay_gain_serial := n',
                 cross_fade_dither := d\<rparr>)
             (store_prefix (min (length data) (length other_data)) mixed other_data) \<and>
         length (store_prefix (min (length data) (length other_data)) mixed other_data)
           = length other_data \<and>
         drop (min (length data) (length other_data))
           (store_prefix (min (length data) (length other_data)) mixed other_data)
           = drop (min (length data) (length other_data)) other_data"
  using FilterChunk_cross_fade [OF assms(1-5)] assms(6)
  by (simp add: length_store_prefix drop_store_prefix)

theorem FilterChunk_size_witness:
  "FilterChunk example_externals example_source fading_chunk =
     filter_instance_FilterPCM example_externals
       (example_source\<lparr>replay_gain_filter_instance := Some 2, replay_gain_serial := 1,
           other_replay_gain_filter_instance := None, other_replay_gain_serial := 0,
           cross_fade_dither := ()\<rparr>)
       [12, 24, 30, 40] \<and>
   length [12, 24, 30, 40 :: 8 word] = length [10, 20, 30, 40 :: 8 word] \<and>
   drop 2 [12, 24, 30, 40 :: 8 word] = drop 2 [10, 20, 30, 40]"
proof -
  have 1: "GetChunkData example_externals example_source fading_chunk
          (replay_gain_filter_instance example_source) (replay_gain_serial example_source)
        = (Inr [2, 4], Some 2, 1)"
    by (simp add: example_defs GetChunkData_def)
  have 2: "[2, 4 :: 8 word] \<noteq> []" by simp
  have 3: "chunk_other fading_chunk = Some next_chunk" by (simp add: fading_chunk_def)
  have 4: "GetChunkData example_externals example_source next_chunk
          (other_replay_gain_filter_instance example_source)
          (other_replay_gain_serial example_source) = (Inr [10, 20, 30, 40], None, 0)"
    by (simp add: example_defs GetChunkData_def)
  have 5: "[10, 20, 30, 40 :: 8 word] \<noteq> []" by simp
  have 6: "pcm_mix example_externals (cross_fade_dither example_source)
           (take (min (length [2, 4 :: 8 word]) (length [10, 20, 30, 40 :: 8 word])) [10, 20, 30, 40])
           (take (min (length [2, 4 :: 8 word]) (length [10, 20, 30, 40 :: 8 word])) [2, 4])
           (format (in_audio_format example_source))
           (if 0 \<le> chunk_mix_ratio fading_chunk then 1 - chunk_mix_ratio fading_chunk
            else chunk_mix_ratio fading_chunk) = (Some [12, 24], ())"
    by (simp add: example_defs)
  show ?thesis
    using FilterChunk_size [OF 1 2 3 4 5 6] by (simp add: store_prefix_def)
qed

subsection \<open>C3: a cross-fade that cannot be mixed\<close>

text \<open>
  Claim C3 says that no error leaves \<^verbatim>\<open>Fill\<close> when \<^verbatim>\<open>pcm_mix\<close> fails, and that the chunk is
  played without fading.  In the example the pipe holds a chunk with a companion and the
  sample format is one the mixer refuses: \<^verbatim>\<open>Fill\<close> ends with the runtime error, holds no
  chunk and has no data pending.
\<close>

theorem Fill_cross_fade_error_counterexample:
  "current_chunk unmixable_source = None \<and>
   pipe_Get example_externals (pipe unmixable_source) = (Some fading_chunk, []) \<and>
   chunk_other fading_chunk = Some next_chunk \<and>
   pcm_mix example_externals () [10, 20] [2, 4] (format (in_audio_format unmixable_source)) (- 1)
     = (None, ()) \<and>
   fst (Fill example_externals unmixable_source)
     = Inl (Thrown (RuntimeError ''Cannot cross-fade format undefined'')) \<and>
   current_chunk (snd (Fill example_externals unmixable_source)) = None \<and>
   pending_data (snd (Fill example_externals unmixable_source)) = []"
  by (simp add: example_defs Fill_def GetChunkData_def FilterChunk_def)

text \<open>
  Claim C3, as amended: when \<^verbatim>\<open>Fill\<close> takes a chunk with a companion from the pipe, both
  yield data and \<^verbatim>\<open>pcm_mix\<close> fails, \<^verbatim>\<open>FilterChunk\<close> throws the runtime error "Cannot
  cross-fade format ..." and \<^verbatim>\<open>Fill\<close> passes it on to its caller, after giving up the
  chunk (\<open>current_chunk\<close> is null again); the pending data are as they were.
\<close>

theorem Fill_cross_fade_error:
  assumes "current_chunk src = None"
    and "pipe_Get ext (pipe src) = (Some chunk, p)"
    and "GetChunkData ext src chunk (replay_gain_filter_instance src) (replay_gain_serial src)
           = (Inr data, f, n)"
    and "data \<noteq> []"
    and "chunk_other chunk = Some other"
    and "GetChunkData ext src other (other_replay_gain_filter_instance src)
           (other_replay_gain_serial src) = (Inr other_data, f', n')"
    and "other_data \<noteq> []"
    and "pcm_mix ext (cross_fade_dither src)
           (take (min (length data) (length other_data)) other_data)
           (take (min (length data) (length other_data)) data)
           (format (in_audio_format src))
           (if 0 \<le> chunk_mix_ratio chunk then 1 - chunk_mix_ratio chunk
            else chunk_mix_ratio chunk) = (None, d)"
  shows "fst (Fill ext src) =
           Inl (Thrown (RuntimeError (''Cannot cross-fade format '' @
                  sample_format_to_string ext (format (in_audio_format src))))) \<and>
         current_chunk (snd (Fill ext src)) = None \<and>
         pending_data (snd (Fill ext src)) = pending_data src"
proof -
  let ?src2 = "src\<lparr>pipe := p, current_chunk := Some chunk, pending_tag := chunk_tag chunk\<rparr>"
  have 1: "GetChunkData ext ?src2 chunk (replay_gain_filter_instance ?src2)
             (replay_gain_serial ?src2) = (Inr data, f, n)"
    using assms(3) by (simp add: GetChunkData_reads [of ?src2 src])
  have 2: "GetChunkData ext ?src2 other (other_replay_gain_filter_instance ?src2)
             (other_replay_gain_serial ?src2) = (Inr other_data, f', n')"
    using assms(6) by (simp add: GetChunkData_reads [of ?src2 src])
  have "FilterChunk ext ?src2 chunk =
          (Inl (Thrown (RuntimeError (''Cannot cross-fade format '' @
                  sample_format_to_string ext (format (in_audio_format src))))),
           ?src2\<lparr>replay_gain_filter_instance := f, replay_gain_serial := n,
               other_replay_gain_filter_instance := f', other_replay_gain_serial := n',
               cross_fade_dither := d\<rparr>)"
    using FilterChunk_cross_fade [OF 1 assms(4) assms(5) 2 assms(7)] assms(8) by simp
  then show ?thesis
    using assms(1) assms(2) by (simp add: Fill_def)
qed

theorem Fill_cross_fade_error_witness:
  "fst (Fill example_externals unmixable_source) =
     Inl (Thrown (RuntimeError (''Cannot cross-fade format '' @ ''undefined''))) \<and>
   current_chunk (snd (Fill example_externals unmixable_source)) = None \<and>
   pending_data (snd (Fill example_externals unmixable_source)) = []"
proof -
  have 1: "current_chunk unmixable_source = None"
    by (simp add: example_defs)
  have 2: "pipe_Get example_externals (pipe unmixable_source) = (Some fading_chunk, [])"
    by (simp add: example_defs)
  have 3: "GetChunkData example_externals unmixable_source fading_chunk
          (replay_gain_filter_instance unmixable_source) (replay_gain_serial unmixable_source)
        = (Inr [2, 4], Some 2, 1)"
    by (simp add: example_defs GetChunkData_def)
  have 4: "[2, 4 :: 8 word] \<noteq> []" by simp
  have 5: "chunk_other fading_chunk = Some next_chunk" by (simp add: fading_chunk_def)
  have 6: "GetChunkData example_externals unmixable_source next_chunk
          (other_replay_gain_filter_instance unmixable_source)
          (other_replay_gain_serial unmixable_source) = (Inr [10, 20, 30, 40], None, 0)"
    by (simp add: example_defs GetChunkData_def)
  have 7: "[10, 20, 30, 40 :: 8 word] \<noteq> []" by simp
  have 8: "pcm_mix example_externals (cross_fade_dither unmixable_source)
           (take (min (length [2, 4 :: 8 word]) (length [10, 20, 30, 40 :: 8 word])) [10, 20, 30, 40])
           (take (min (length [2, 4 :: 8 word]) (length [10, 20, 30, 40 :: 8 word])) [2, 4])
           (format (in_audio_format unmixable_source))
           (if 0 \<le> chunk_mix_ratio fading_chunk then 1 - chunk_mix_ratio fading_chunk
            else chunk_mix_ratio fading_chunk) = (None, ())"
    by (simp add: example_defs)
  show ?thesis
    using Fill_cross_fade_error [OF 1 2 3 4 5 6 7 8] by (simp add: example_defs)
qed

subsection \<open>C5: the weights of the cross-fade\<close>

text \<open>
  Claim C5: for a chunk with a companion, both yielding data, the units that
  \<^verbatim>\<open>FilterChunk\<close> mixes are \<open>companion * (1 - r) + primary * r\<close> when the mix ratio \<open>r\<close>
  is not negative, and \<open>companion + primary\<close> when it is negative.  The mixer is the one
  modelled from the spec; a mix ratio that is not negative is at most 1, as the data
  model of the spec has it.  The index \<open>i\<close> ranges over the units that are mixed, those
  that both buffers have.
\<close>

theorem FilterChunk_mix:
  assumes "pcm_mix ext = pcm_mix_spec"
    and "GetChunkData ext src chunk (replay_gain_filter_instance src) (replay_gain_serial src)
           = (Inr data, f, n)"
    and "data \<noteq> []"
    and "chunk_other chunk = Some other"
    and "GetChunkData ext src other (other_replay_gain_filter_instance src)
           (other_replay_gain_serial src) = (Inr other_data, f', n')"
    and "other_data \<noteq> []"
    and "chunk_mix_ratio chunk \<le> 1"
    and "i < length data" and "i < length other_data"
  shows "FilterChunk ext src chunk =
           filter_instance_FilterPCM ext
             (src\<lparr>replay_gain_filter_instance := f, replay_gain_serial := n,
                 other_replay_gain_filter_instance := f', other_replay_gain_serial := n'\<rparr>)
             (store_prefix (min (length data) (length other_data))
                (map2 (\<lambda>a b. if 0 \<le> chunk_mix_ratio chunk
                               then a * (1 - chunk_mix_ratio chunk) + b * chunk_mix_ratio chunk
                               else a + b)
                   (take (min (length data) (length other_data)) other_data)
                   (take (min (length data) (length other_data)) data))
                other_data) \<and>
         store_prefix (min (length data) (length other_data))
           (map2 (\<lambda>a b. if 0 \<le> chunk_mix_ratio chunk
                          then a * (1 - chunk_mix_ratio chunk) + b * chunk_mix_ratio chunk
                          else a + b)
              (take (min (length data) (length other_data)) other_data)
              (take (min (length data) (length other_data)) data))
           other_data ! i
         = (if 0 \<le> chunk_mix_ratio chunk
            then other_data ! i * (1 - chunk_mix_ratio chunk) + data ! i * chunk_mix_ratio chunk
            else other_data ! i + data ! i)"
proof -
  let ?r = "chunk_mix_ratio chunk"
  let ?m = "min (length data) (length other_data)"
  let ?w = "\<lambda>a b. if 0 \<le> ?r then a * (1 - ?r) + b * ?r else a + b"
  have mix: "pcm_mix ext (cross_fade_dither src) (take ?m other_data) (take ?m data)
               (format (in_audio_format src)) (if 0 \<le> ?r then 1 - ?r else ?r)
             = (Some (map2 ?w (take ?m other_data) (take ?m data)), cross_fade_dither src)"
    using assms(7) by (simp add: assms(1) pcm_mix_spec_def)
  have a: "FilterChunk ext src chunk =
           filter_instance_FilterPCM ext
             (src\<lparr>replay_gain_filter_instance := f, replay_gain_serial := n,
                 other_replay_gain_filter_instance := f', other_replay_gain_serial := n'\<rparr>)
             (store_prefix ?m (map2 ?w (take ?m other_data) (take ?m data)) other_data)"
    using FilterChunk_cross_fade [OF assms(2-6)] by (simp add: mix)
  have b: "store_prefix ?m (map2 ?w (take ?m other_data) (take ?m data)) other_data ! i
           = map2 ?w (take ?m other_data) (take ?m data) ! i"
    using assms(8,9) by (intro nth_store_prefix) simp_all
  have c: "map2 ?w (take ?m other_data) (take ?m data) ! i = ?w (other_data ! i) (data ! i)"
    using assms(8,9) by simp
  show ?thesis using a b c by simp
qed

theorem FilterChunk_mix_witness:
  "FilterChunk real_externals real_source real_fading_chunk = (Inr [7, 5, 2], real_source) \<and>
   FilterChunk real_externals real_source real_mixramp_chunk = (Inr [12, 12, 2], real_source) \<and>
   [7, 5, 2 :: real] ! 0 = 8 * (1 - 1 / 4) + 4 * (1 / 4) \<and>
   [12, 12, 2 :: real] ! 0 = 8 + 4"
proof -
  have 1: "pcm_mix real_externals = pcm_mix_spec"
    by (simp add: real_externals_def)
  have 2: "GetChunkData real_externals real_source real_fading_chunk
             (replay_gain_filter_instance real_source) (replay_gain_serial real_source)
           = (Inr [4, 8], None, 0)"
    by (simp add: real_example_defs GetChunkData_def)
  have c2: "GetChunkData real_externals real_source real_mixramp_chunk
             (replay_gain_filter_instance real_source) (replay_gain_serial real_source)
           = (Inr [4, 8], None, 0)"
    by (simp add: real_example_defs GetChunkData_def)
  have 3: "[4, 8 :: real] \<noteq> []" by simp
  have 4: "chunk_other real_fading_chunk = Some (MusicChunk None 0 None () 0 [8, 4, 2])"
    by (simp add: real_fading_chunk_def)
  have c4: "chunk_other real_mixramp_chunk = Some (MusicChunk None 0 None () 0 [8, 4, 2])"
    by (simp add: real_mixramp_chunk_def)
  have 5: "GetChunkData real_externals real_source (MusicChunk None 0 None () 0 [8, 4, 2])
             (other_replay_gain_filter_instance real_source)
             (other_replay_gain_serial real_source)
           = (Inr [8, 4, 2], None, 0)"
    by (simp add: real_example_defs GetChunkData_def)
  have 6: "[8, 4, 2 :: real] \<noteq> []" by simp
  have 7: "chunk_mix_ratio real_fading_chunk \<le> 1" by (simp add: real_fading_chunk_def)
  have c7: "chunk_mix_ratio real_mixramp_chunk \<le> 1" by (simp add: real_mixramp_chunk_def)
  have 8: "0 < length [4, 8 :: real]" by simp
  have 9: "0 < length [8, 4, 2 :: real]" by simp
  show ?thesis
    using FilterChunk_mix [OF 1 2 3 4 5 6 7 8 9] FilterChunk_mix [OF 1 c2 3 c4 5 6 c7 8 9]
    by (simp add: real_example_defs filter_instance_FilterPCM_def store_prefix_def)
qed

section \<open>Properties of the decoder control\<close>

subsection \<open>C4: rethrowing the stored error\<close>

text \<open>
  Claim C4 says that \<^verbatim>\<open>CheckRethrowError\<close> raises the stored error once, and that a
  second call right after the first raises nothing.  The method is \<^verbatim>\<open>const\<close> and clears
  nothing: on the example decoder the second call raises the same error again.
\<close>

theorem CheckRethrowError_once_counterexample:
  "dc_state failed_decoder = DecoderState_ERROR \<and>
   dc_error failed_decoder = Some (RuntimeError ''Failed to decode'') \<and>
   fst (DecoderControl_CheckRethrowError failed_decoder)
     = Inl (Thrown (RuntimeError ''Failed to decode'')) \<and>
   fst (DecoderControl_CheckRethrowError (snd (DecoderControl_CheckRethrowError failed_decoder)))
     = Inl (Thrown (RuntimeError ''Failed to decode''))"
  by (simp add: failed_decoder_def DecoderControl_CheckRethrowError_def)

text \<open>
  Claim C4, as amended: when the decoder is in state ERROR with a stored error and no
  command pending, every call of \<^verbatim>\<open>CheckRethrowError\<close> raises the stored error and leaves
  the decoder control as it was, so a second call right after the first raises it again.
  The error is raised no more once \<^verbatim>\<open>ClearError\<close> has taken the decoder from ERROR to
  STOP.
\<close>

theorem CheckRethrowError_every_call:
  assumes "dc_command dc = DecoderCommand_NONE"
    and "dc_state dc = DecoderState_ERROR"
    and "dc_error dc = Some e"
  shows "DecoderControl_CheckRethrowError dc = (Inl (Thrown e), dc) \<and>
         DecoderControl_CheckRethrowError (snd (DecoderControl_CheckRethrowError dc))
           = (Inl (Thrown e), dc) \<and>
         fst (DecoderControl_CheckRethrowError (DecoderControl_ClearError dc)) = Inr () \<and>
         dc_state (DecoderControl_ClearError dc) = DecoderState_STOP"
  using assms by (simp add: DecoderControl_CheckRethrowError_def DecoderControl_ClearError_def)

theorem CheckRethrowError_every_call_witness:
  "DecoderControl_CheckRethrowError failed_decoder
     = (Inl (Thrown (RuntimeError ''Failed to decode'')), failed_decoder) \<and>
   DecoderControl_CheckRethrowError (snd (DecoderControl_CheckRethrowError failed_decoder))
     = (Inl (Thrown (RuntimeError ''Failed to decode'')), failed_decoder) \<and>
   fst (DecoderControl_CheckRethrowError (DecoderControl_ClearError failed_decoder)) = Inr () \<and>
   dc_state (DecoderControl_ClearError failed_decoder) = DecoderState_STOP"
proof -
  have 1: "dc_command failed_decoder = DecoderCommand_NONE"
    and 2: "dc_state failed_decoder = DecoderState_ERROR"
    and 3: "dc_error failed_decoder = Some (RuntimeError ''Failed to decode'')"
    by (simp_all add: failed_decoder_def)
  show ?thesis using CheckRethrowError_every_call [OF 1 2 3] .
qed

section \<open>Properties of the player control\<close>

text \<open>
  The wait loop returns at once when no command is pending, takes one more turn when
  one is, and returns only with the slot empty.  What every step of the rest of the
  program keeps, the wait keeps.
\<close>

lemma WaitCommandLocked_idle:
  "command pc = PlayerCommand_NONE \<Longrightarrow> WaitCommandLocked th pc = Some pc"
  by (subst WaitCommandLocked.simps) simp

lemma WaitCommandLocked_busy:
  "command pc \<noteq> PlayerCommand_NONE \<Longrightarrow> WaitCommandLocked th pc = WaitCommandLocked th (th pc)"
  by (subst WaitCommandLocked.simps) (simp add: ClientWait_def)


lemma leaves_WaitCommandLocked:
  assumes "WaitCommandLocked th pc = Some pc'"
    and "\<And>pc. P pc \<Longrightarrow> P (th pc)"
    and "P pc"
  shows "P pc'"
proof -
  have "(\<forall>p. P p \<longrightarrow> P (th p)) \<longrightarrow> P pc \<longrightarrow> P pc'"
  proof (rule WaitCommandLocked.raw_induct
      [where P = "\<lambda>th pc pc'. (\<forall>p. P p \<longrightarrow> P (th p)) \<longrightarrow> P pc \<longrightarrow> P pc'", OF _ assms(1)])
    fix W :: "(('a, 'b) PlayerControl_scheme \<Rightarrow> ('a, 'b) PlayerControl_scheme) \<Rightarrow>
              ('a, 'b) PlayerControl_scheme \<Rightarrow> ('a, 'b) PlayerControl_scheme option"
      and th pc pc'
    assume IH: "\<And>th pc pc'. W th pc = Some pc' \<Longrightarrow>
                  (\<forall>p. P p \<longrightarrow> P (th p)) \<longrightarrow> P pc \<longrightarrow> P pc'"
      and eq: "(if command pc \<noteq> PlayerCommand_NONE then W th (ClientWait th pc) else Some pc)
               = Some pc'"
    show "(\<forall>p. P p \<longrightarrow> P (th p)) \<longrightarrow> P pc \<longrightarrow> P pc'"
    proof (cases "command pc \<noteq> PlayerCommand_NONE")
      case True
      with eq have "W th (th pc) = Some pc'" by (simp add: ClientWait_def)
      from IH [OF this] show ?thesis by blast
    next
      case False
      with eq show ?thesis by simp
    qed
  qed
  with assms(2,3) show ?thesis by blast
qed

lemma and_then_returns: "and_then (returns pc) k = k pc"
  by (simp add: and_then_def returns_def)

lemma and_then_failed: "and_then (Some (Inl e, pc)) k = Some (Inl e, pc)"
  by (simp add: and_then_def)

lemma state_idle_add: "state (idle_add flag pc) = state pc"
  by (simp add: idle_add_def)

lemma example_player_thread_finishes:
  "command (example_player_thread pc) = PlayerCommand_NONE"
  by (simp add: example_player_thread_def split: PlayerCommand.splits)

lemma example_player_thread_toggles: "PAUSE_toggles example_player_thread"
  unfolding PAUSE_toggles_def
proof (intro allI impI)
  fix pc :: "string PlayerControl"
  assume c: "command pc = PlayerCommand_PAUSE"
  have "WaitCommandLocked example_player_thread pc
          = WaitCommandLocked example_player_thread (example_player_thread pc)"
    using c by (simp add: WaitCommandLocked_busy)
  also have "\<dots> = Some (example_player_thread pc)"
    by (simp add: WaitCommandLocked_idle example_player_thread_finishes)
  finally show "\<exists>pc'. WaitCommandLocked example_player_thread pc = Some pc' \<and>
                  state pc' = toggled (state pc)"
    using c by (simp add: example_player_thread_def)
qed

subsection \<open>C6: the status while the player thread is occupied\<close>

text \<open>
  Claim C6 says that \<^verbatim>\<open>LockGetStatus\<close>, called while \<open>occupied\<close> is set, returns the
  cached state, bit rate, audio format, total time and elapsed time.  In the state STOP
  it does not: only the state is assigned, whatever the cached bit rate (320 in the
  example) and the rest.
\<close>

theorem LockGetStatus_occupied_counterexample:
  "occupied occupied_stopped_player \<and>
   bit_rate occupied_stopped_player = 320 \<and>
   LockGetStatus example_player_thread occupied_stopped_player
     = Some (Inr \<lparr>status_state = PlayerState_STOP, status_bit_rate = None,
                  status_audio_format = None, status_total_time = None,
                  status_elapsed_time = None\<rparr>,
             occupied_stopped_player)"
  by (simp add: LockGetStatus_def returns_def read_status_def occupied_stopped_player_def
      example_player_def)

text \<open>
  Claim C6, as amended: when \<open>occupied\<close> is set, \<^verbatim>\<open>LockGetStatus\<close> issues no command
  (whatever the player thread, it returns with the control unchanged) and returns the
  cached state and, unless that state is STOP, the cached bit rate, audio format, total
  time and elapsed time.  When \<open>occupied\<close> is not set (and no command is pending), it
  stores REFRESH, waits for the command to be finished, and reads the fields from the
  state it finds then.
\<close>

theorem LockGetStatus_occupied:
  "(occupied pc \<longrightarrow>
      LockGetStatus th pc = Some (Inr (read_status pc), pc) \<and>
      status_state (read_status pc) = state pc \<and>
      (state pc \<noteq> PlayerState_STOP \<longrightarrow>
         status_bit_rate (read_status pc) = Some (bit_rate pc) \<and>
         status_audio_format (read_status pc) = Some (audio_format pc) \<and>
         status_total_time (read_status pc) = Some (total_time pc) \<and>
         status_elapsed_time (read_status pc) = Some (elapsed_time pc))) \<and>
   (\<not> occupied pc \<and> command pc = PlayerCommand_NONE \<longrightarrow>
      LockGetStatus th pc =
        (case WaitCommandLocked th (pc\<lparr>command := PlayerCommand_REFRESH\<rparr>) of
           None \<Rightarrow> None
         | Some pc' \<Rightarrow> Some (Inr (read_status pc'), pc')))"
  by (simp add: LockGetStatus_def SynchronousCommand_def returns_def read_status_def
      split: option.splits)

theorem LockGetStatus_occupied_witness:
  "occupied occupied_player \<and>
   LockGetStatus example_player_thread occupied_player
     = Some (Inr \<lparr>status_state = PlayerState_PLAY, status_bit_rate = Some 320,
                  status_audio_format = Some \<lparr>sample_rate = 44100, format = 2, channels = 2\<rparr>,
                  status_total_time = Some 180000, status_elapsed_time = Some 5000\<rparr>,
             occupied_player) \<and>
   \<not> occupied example_player \<and>
   LockGetStatus example_player_thread example_player
     = Some (Inr \<lparr>status_state = PlayerState_PLAY, status_bit_rate = Some 320,
                  status_audio_format = Some \<lparr>sample_rate = 44100, format = 2, channels = 2\<rparr>,
                  status_total_time = Some 180000, status_elapsed_time = Some 6000\<rparr>,
             example_player\<lparr>elapsed_time := 6000\<rparr>)"
proof -
  have w: "WaitCommandLocked example_player_thread
             (example_player\<lparr>command := PlayerCommand_REFRESH\<rparr>)
           = Some (example_player\<lparr>elapsed_time := 6000\<rparr>)"
    by (simp add: WaitCommandLocked_busy WaitCommandLocked_idle example_player_thread_def
        example_player_def)
  have o: "occupied occupied_player" "\<not> occupied example_player"
    "command example_player = PlayerCommand_NONE"
    by (simp_all add: occupied_player_def example_player_def)
  show ?thesis
    using LockGetStatus_occupied [of occupied_player example_player_thread]
      LockGetStatus_occupied [of example_player example_player_thread] o
    by (simp add: w) (simp add: read_status_def occupied_player_def example_player_def)
qed

subsection \<open>C8: the status in the state STOP\<close>

text \<open>
  Claim C8: when the player state is STOP, the status that \<^verbatim>\<open>LockGetStatus\<close> returns has
  its state field assigned and no other: bit rate, audio format, total time and
  elapsed time are left as the declaration without initialiser made them.  The state
  meant is the one \<^verbatim>\<open>LockGetStatus\<close> reads, after the REFRESH if there was one.
\<close>

theorem LockGetStatus_STOP:
  assumes "LockGetStatus th pc = Some (Inr status, pc')"
    and "state pc' = PlayerState_STOP"
  shows "status = \<lparr>status_state = PlayerState_STOP, status_bit_rate = None,
                    status_audio_format = None, status_total_time = None,
                    status_elapsed_time = None\<rparr>"
  using assms
  by (auto simp: LockGetStatus_def read_status_def split: option.splits sum.splits if_splits)

theorem LockGetStatus_STOP_witness:
  "LockGetStatus example_player_thread occupied_stopped_player
     = Some (Inr \<lparr>status_state = PlayerState_STOP, status_bit_rate = None,
                  status_audio_format = None, status_total_time = None,
                  status_elapsed_time = None\<rparr>, occupied_stopped_player) \<and>
   state occupied_stopped_player = PlayerState_STOP"
proof -
  obtain status where
    1: "LockGetStatus example_player_thread occupied_stopped_player
          = Some (Inr status, occupied_stopped_player)"
    by (simp add: LockGetStatus_def returns_def occupied_stopped_player_def example_player_def)
  have 2: "state occupied_stopped_player = PlayerState_STOP"
    by (simp add: occupied_stopped_player_def)
  show ?thesis
    using LockGetStatus_STOP [OF 1 2] 1 2 by simp
qed

subsection \<open>C10: setting the pause flag twice\<close>

lemma LockSetPause_settled:
  "state pc = PlayerState_STOP \<or> (pause_flag \<and> state pc = PlayerState_PAUSE) \<or>
   (\<not> pause_flag \<and> state pc = PlayerState_PLAY) \<Longrightarrow>
   LockSetPause th pause_flag pc = returns pc"
  by (auto simp: LockSetPause_def)

lemma PauseLocked_toggles:
  assumes "PAUSE_toggles th" and "command pc = PlayerCommand_NONE"
    and "state pc \<noteq> PlayerState_STOP"
  shows "\<exists>pc1. PauseLocked th pc = returns pc1 \<and> state pc1 = toggled (state pc)"
proof -
  have "command (pc\<lparr>command := PlayerCommand_PAUSE\<rparr>) = PlayerCommand_PAUSE"
    by simp
  with assms(1) obtain pc' where
    w: "WaitCommandLocked th (pc\<lparr>command := PlayerCommand_PAUSE\<rparr>) = Some pc'"
    and s: "state pc' = toggled (state (pc\<lparr>command := PlayerCommand_PAUSE\<rparr>))"
    unfolding PAUSE_toggles_def by blast
  have "PauseLocked th pc = returns (idle_add IDLE_PLAYER pc')"
    using assms(2,3) w by (simp add: PauseLocked_def SynchronousCommand_def and_then_returns)
  moreover have "state (idle_add IDLE_PLAYER pc') = toggled (state pc)"
    using s by (simp add: state_idle_add)
  ultimately show ?thesis by blast
qed

text \<open>
  Claim C10: \<^verbatim>\<open>LockSetPause(f)\<close> twice in a row ends as \<^verbatim>\<open>LockSetPause(f)\<close> once does, with
  the same state left; called with no command pending it returns; and it changes
  nothing when the state is STOP, when \<open>f\<close> is set and the state is PAUSE, and when
  \<open>f\<close> is not set and the state is PLAY.  The player thread is one that toggles the
  state on PAUSE, as the spec has it.
\<close>

theorem LockSetPause_idempotent:
  assumes "PAUSE_toggles th"
  shows "and_then (LockSetPause th pause_flag pc) (LockSetPause th pause_flag)
           = LockSetPause th pause_flag pc \<and>
         (command pc = PlayerCommand_NONE \<longrightarrow>
            (\<exists>pc1. LockSetPause th pause_flag pc = returns pc1)) \<and>
         (state pc = PlayerState_STOP \<or> (pause_flag \<and> state pc = PlayerState_PAUSE) \<or>
          (\<not> pause_flag \<and> state pc = PlayerState_PLAY) \<longrightarrow>
            LockSetPause th pause_flag pc = returns pc)"
proof (cases "state pc = PlayerState_STOP \<or> (pause_flag \<and> state pc = PlayerState_PAUSE) \<or>
              (\<not> pause_flag \<and> state pc = PlayerState_PLAY)")
  case True
  then have "LockSetPause th pause_flag pc = returns pc"
    by (rule LockSetPause_settled)
  then show ?thesis by (auto simp: and_then_returns)
next
  case False
  then have ns: "state pc \<noteq> PlayerState_STOP"
    and tg: "toggled (state pc) = (if pause_flag then PlayerState_PAUSE else PlayerState_PLAY)"
    by (cases "state pc"; simp add: toggled_def)+
  have L: "LockSetPause th pause_flag pc = PauseLocked th pc"
    using False by (cases "state pc") (auto simp: LockSetPause_def)
  show ?thesis
  proof (cases "command pc = PlayerCommand_NONE")
    case True
    from PauseLocked_toggles [OF assms True ns] obtain pc1 where
      p: "PauseLocked th pc = returns pc1" and s: "state pc1 = toggled (state pc)"
      by blast
    have "LockSetPause th pause_flag pc1 = returns pc1"
      using s tg by (intro LockSetPause_settled) simp
    then show ?thesis using False L p by (auto simp: and_then_returns)
  next
    case busy: False
    then have "LockSetPause th pause_flag pc = Some (Inl AssertionFailed, pc)"
      using ns by (simp add: L PauseLocked_def SynchronousCommand_def and_then_failed)
    then show ?thesis using False busy by (auto simp: and_then_failed)
  qed
qed

theorem LockSetPause_idempotent_witness:
  "LockSetPause example_player_thread True example_player = returns paused_player \<and>
   and_then (LockSetPause example_player_thread True example_player)
     (LockSetPause example_player_thread True) = returns paused_player \<and>
   state example_player = PlayerState_PLAY \<and>
   LockSetPause example_player_thread False example_player = returns example_player"
proof -
  have w: "WaitCommandLocked example_player_thread
             (example_player\<lparr>command := PlayerCommand_PAUSE\<rparr>)
           = Some (example_player\<lparr>state := PlayerState_PAUSE\<rparr>)"
    by (simp add: WaitCommandLocked_busy WaitCommandLocked_idle example_player_thread_def
        example_player_def toggled_def)
  have 1: "LockSetPause example_player_thread True example_player = returns paused_player"
    using w
    by (simp add: LockSetPause_def PauseLocked_def SynchronousCommand_def and_then_def
        returns_def idle_add_def example_player_def paused_player_def)
  have 2: "command example_player = PlayerCommand_NONE \<and> state example_player = PlayerState_PLAY"
    by (simp add: example_player_def)
  show ?thesis
    using LockSetPause_idempotent [OF example_player_thread_toggles, of True example_player]
      LockSetPause_idempotent [OF example_player_thread_toggles, of False example_player]
      1 2
    by simp
qed

subsection \<open>C9: the cross-fade duration after \<^verbatim>\<open>SetCrossFade\<close>\<close>

lemma leaves_returns: "P pc \<Longrightarrow> leaves P (returns pc)"
  by (simp add: leaves_def returns_def)

lemma leaves_failed: "P pc \<Longrightarrow> leaves P (Some (Inl e, pc))"
  by (simp add: leaves_def)

lemma leaves_and_then:
  assumes "leaves P r" and "\<And>pc. P pc \<Longrightarrow> leaves P (k pc)"
  shows "leaves P (and_then r k)"
proof (cases r)
  case None
  then show ?thesis by (simp add: and_then_def leaves_def)
next
  case (Some a)
  obtain x pc where a: "a = (x, pc)" by (cases a)
  with Some assms(1) have p: "P pc" by (simp add: leaves_def)
  show ?thesis
  proof (cases x)
    case (Inl e)
    with Some a p show ?thesis by (simp add: and_then_def leaves_def)
  next
    case (Inr u)
    with Some a have "and_then r k = k pc" by (simp add: and_then_def)
    with assms(2) [OF p] show ?thesis by simp
  qed
qed

lemma GetCrossFade_updates:
  "GetCrossFade (pc\<lparr>command := c\<rparr>) = GetCrossFade pc"
  "GetCrossFade (pc\<lparr>state := s\<rparr>) = GetCrossFade pc"
  "GetCrossFade (pc\<lparr>error_type := t\<rparr>) = GetCrossFade pc"
  "GetCrossFade (pc\<lparr>error := e\<rparr>) = GetCrossFade pc"
  "GetCrossFade (pc\<lparr>next_song := n\<rparr>) = GetCrossFade pc"
  "GetCrossFade (pc\<lparr>tagged_song := n\<rparr>) = GetCrossFade pc"
  "GetCrossFade (pc\<lparr>border_pause := b\<rparr>) = GetCrossFade pc"
  "GetCrossFade (pc\<lparr>seek_time := k\<rparr>) = GetCrossFade pc"
  "GetCrossFade (idle_add flag pc) = GetCrossFade pc"
  by (simp_all add: GetCrossFade_def idle_add_def)

lemma GetCrossFade_setters:
  "GetCrossFade (SetCrossFade x pc) = (if float_less x (Finite 0) then Finite 0 else x)"
  "GetCrossFade (SetMixRampDb y pc) = GetCrossFade pc"
  "GetCrossFade (SetMixRampDelay y pc) = GetCrossFade pc"
  by (simp_all add: GetCrossFade_def SetCrossFade_def SetMixRampDb_def SetMixRampDelay_def
      idle_add_def)

lemma duration_SynchronousCommand:
  assumes "keeps_cross_fade_duration th" and "Q (GetCrossFade pc)"
  shows "leaves (\<lambda>p. Q (GetCrossFade p)) (SynchronousCommand th cmd pc)"
proof (cases "WaitCommandLocked th (pc\<lparr>command := cmd\<rparr>)")
  case None
  then show ?thesis using assms(2) by (simp add: SynchronousCommand_def leaves_def)
next
  case (Some pc')
  have "GetCrossFade pc' = GetCrossFade pc"
    using leaves_WaitCommandLocked [of th "pc\<lparr>command := cmd\<rparr>" pc'
        "\<lambda>p. GetCrossFade p = GetCrossFade pc", OF Some] assms(1)
    by (simp add: keeps_cross_fade_duration_def GetCrossFade_updates)
  with Some assms(2) show ?thesis
    by (simp add: SynchronousCommand_def leaves_def returns_def)
qed

lemma duration_PauseLocked:
  assumes "keeps_cross_fade_duration th" and "Q (GetCrossFade pc)"
  shows "leaves (\<lambda>p. Q (GetCrossFade p)) (PauseLocked th pc)"
  unfolding PauseLocked_def using assms
  by (auto intro!: leaves_and_then duration_SynchronousCommand leaves_returns
      simp: GetCrossFade_updates)

lemma duration_SeekLocked:
  assumes "keeps_cross_fade_duration th" and "Q (GetCrossFade pc)"
  shows "leaves (\<lambda>p. Q (GetCrossFade p)) (SeekLocked th song t pc)"
  unfolding SeekLocked_def using assms
  by (auto intro!: leaves_and_then duration_SynchronousCommand leaves_returns leaves_failed
      simp: GetCrossFade_updates PlayerControl_ClearError_def split: option.splits)

lemma duration_perform:
  assumes "keeps_cross_fade_duration th" and "Q (GetCrossFade pc)"
    and "\<And>x. op = Op_SetCrossFade x \<Longrightarrow> Q (if float_less x (Finite 0) then Finite 0 else x)"
  shows "leaves (\<lambda>p. Q (GetCrossFade p)) (perform th op pc)"
proof (cases op)
  case (Op_Play song)
  then show ?thesis unfolding perform_def Play_def using assms(1,2)
    by (auto intro!: leaves_and_then duration_SeekLocked duration_PauseLocked leaves_returns)
next
  case Op_LockCancel
  then show ?thesis unfolding perform_def LockCancel_def LockSynchronousCommand_def
    using assms(1,2)
    by (auto intro!: leaves_and_then duration_SynchronousCommand leaves_returns leaves_failed)
next
  case Op_LockStop
  then show ?thesis unfolding perform_def LockStop_def LockSynchronousCommand_def
    using assms(1,2)
    by (auto intro!: leaves_and_then duration_SynchronousCommand leaves_returns leaves_failed
        simp: GetCrossFade_updates)
next
  case Op_LockUpdateAudio
  then show ?thesis unfolding perform_def LockUpdateAudio_def LockSynchronousCommand_def
    using assms(1,2) by (auto intro!: duration_SynchronousCommand)
next
  case Op_Kill
  then show ?thesis unfolding perform_def Kill_def LockSynchronousCommand_def using assms(1,2)
    by (auto intro!: leaves_and_then duration_SynchronousCommand leaves_returns
        simp: GetCrossFade_updates)
next
  case Op_LockPause
  then show ?thesis unfolding perform_def LockPause_def using assms(1,2)
    by (auto intro!: duration_PauseLocked)
next
  case (Op_LockSetPause pause_flag)
  then show ?thesis unfolding perform_def LockSetPause_def using assms(1,2)
    by (auto intro!: duration_PauseLocked leaves_returns split: PlayerState.splits)
next
  case (Op_LockSetBorderPause b)
  then show ?thesis unfolding perform_def LockSetBorderPause_def using assms(1,2)
    by (auto intro!: leaves_returns simp: GetCrossFade_updates)
next
  case Op_LockGetStatus
  have "leaves (\<lambda>p. Q (GetCrossFade p))
          (if \<not> occupied pc then SynchronousCommand th PlayerCommand_REFRESH pc else returns pc)"
    using assms(1,2) by (auto intro!: duration_SynchronousCommand leaves_returns)
  with Op_LockGetStatus show ?thesis unfolding perform_def LockGetStatus_def
    by (auto simp: leaves_def returns_def split: option.splits sum.splits prod.splits)
next
  case (Op_SetError type e)
  then show ?thesis unfolding perform_def SetError_def using assms(1,2)
    by (auto intro!: leaves_returns leaves_failed simp: GetCrossFade_updates)
next
  case (Op_SetOutputError e)
  then show ?thesis unfolding perform_def SetOutputError_def SetError_def using assms(1,2)
    by (auto intro!: leaves_and_then leaves_returns leaves_failed simp: GetCrossFade_updates)
next
  case Op_LockClearError
  then show ?thesis unfolding perform_def LockClearError_def PlayerControl_ClearError_def
    using assms(1,2) by (auto intro!: leaves_returns simp: GetCrossFade_updates)
next
  case Op_CheckRethrowError
  then show ?thesis unfolding perform_def PlayerControl_CheckRethrowError_def using assms(1,2)
    by (auto intro!: leaves_returns leaves_failed split: option.splits)
next
  case Op_ApplyBorderPause
  then show ?thesis unfolding perform_def ApplyBorderPause_def using assms(1,2)
    by (auto intro!: leaves_returns simp: GetCrossFade_updates)
next
  case (Op_LockSetTaggedSong song)
  then show ?thesis unfolding perform_def LockSetTaggedSong_def using assms(1,2)
    by (auto intro!: leaves_returns simp: GetCrossFade_updates)
next
  case Op_ClearTaggedSong
  then show ?thesis unfolding perform_def ClearTaggedSong_def using assms(1,2)
    by (auto intro!: leaves_returns simp: GetCrossFade_updates)
next
  case Op_LockReadTaggedSong
  then show ?thesis unfolding perform_def LockReadTaggedSong_def ReadTaggedSong_def
    using assms(1,2) by (auto intro!: leaves_returns simp: GetCrossFade_updates)
next
  case (Op_LockEnqueueSong song)
  then show ?thesis unfolding perform_def LockEnqueueSong_def EnqueueSongLocked_def
    using assms(1,2)
    by (auto intro!: duration_SynchronousCommand leaves_failed simp: GetCrossFade_updates)
next
  case (Op_LockSeek song t)
  then show ?thesis unfolding perform_def LockSeek_def using assms(1,2)
    by (auto intro!: leaves_and_then duration_SeekLocked leaves_returns
        simp: GetCrossFade_updates)
next
  case (Op_SetCrossFade x)
  then show ?thesis unfolding perform_def using assms(3) [of x]
    by (auto intro!: leaves_returns simp: GetCrossFade_setters)
next
  case (Op_SetMixRampDb db)
  then show ?thesis unfolding perform_def using assms(1,2)
    by (auto intro!: leaves_returns simp: GetCrossFade_setters)
next
  case (Op_SetMixRampDelay seconds)
  then show ?thesis unfolding perform_def using assms(1,2)
    by (auto intro!: leaves_returns simp: GetCrossFade_setters)
next
  case Op_CommandFinished
  then show ?thesis unfolding perform_def CommandFinished_def using assms(1,2)
    by (auto intro!: leaves_returns leaves_failed simp: GetCrossFade_updates)
qed

lemma clamp_not_negative: "\<not> float_less (if float_less x (Finite 0) then Finite 0 else x) (Finite 0)"
  by (cases x) simp_all

lemma clamp_at_least_zero:
  "x \<noteq> NaN \<Longrightarrow> float_le (Finite 0) (if float_less x (Finite 0) then Finite 0 else x)"
  by (cases x) simp_all

lemma reachable_not_negative:
  assumes "reachable th pc ops pc'" and "keeps_cross_fade_duration th"
    and "\<not> float_less (GetCrossFade pc) (Finite 0)"
  shows "\<not> float_less (GetCrossFade pc') (Finite 0)"
  using assms
proof (induction rule: reachable.induct)
  case start
  then show ?case by simp
next
  case (step ops pc1 op r pc2)
  then have "leaves (\<lambda>p. \<not> float_less (GetCrossFade p) (Finite 0)) (perform th op pc1)"
    by (intro duration_perform [where Q = "\<lambda>d. \<not> float_less d (Finite 0)"])
       (simp_all add: clamp_not_negative)
  with step.hyps(2) show ?case by (simp add: leaves_def)
qed

lemma reachable_at_least_zero:
  assumes "reachable th pc ops pc'" and "keeps_cross_fade_duration th"
    and "float_le (Finite 0) (GetCrossFade pc)" and "Op_SetCrossFade NaN \<notin> set ops"
  shows "float_le (Finite 0) (GetCrossFade pc')"
  using assms
proof (induction rule: reachable.induct)
  case start
  then show ?case by simp
next
  case (step ops pc1 op r pc2)
  from step.prems(3) have c: "\<And>x. op = Op_SetCrossFade x \<Longrightarrow>
      float_le (Finite 0) (if float_less x (Finite 0) then Finite 0 else x)"
    by (intro clamp_at_least_zero) auto
  from step have "float_le (Finite 0) (GetCrossFade pc1)" by simp
  with step.prems(1) c
  have "leaves (\<lambda>p. float_le (Finite 0) (GetCrossFade p)) (perform th op pc1)"
    by (intro duration_perform [where Q = "\<lambda>d. float_le (Finite 0) d"])
  with step.hyps(2) show ?case by (simp add: leaves_def)
qed

text \<open>
  Claim C9 says that for every float \<open>x\<close> the duration stored by \<^verbatim>\<open>SetCrossFade(x)\<close> is
  \<open>max(x, 0)\<close>, so that \<^verbatim>\<open>cross_fade.duration >= 0\<close> holds through every operation.  For
  NaN the test \<^verbatim>\<open>x < 0\<close> is false and NaN is stored: in the example the duration is 0
  before the call, and after it \<^verbatim>\<open>duration >= 0\<close> is false.
\<close>

theorem SetCrossFade_NaN_counterexample:
  "float_le (Finite 0) (GetCrossFade example_player) \<and>
   GetCrossFade (SetCrossFade NaN example_player) = NaN \<and>
   \<not> float_le (Finite 0) (GetCrossFade (SetCrossFade NaN example_player))"
  by (simp add: GetCrossFade_setters) (simp add: GetCrossFade_def example_player_def)

text \<open>
  Claim C9, as amended: for every float \<open>x\<close> that is not NaN the duration stored by
  \<^verbatim>\<open>SetCrossFade(x)\<close> is \<open>max(x, 0)\<close> (the number \<open>max r 0\<close> for a number \<open>r\<close>, 0 for
  minus infinity, plus infinity for itself), and \<^verbatim>\<open>duration >= 0\<close> holds after the call;
  for NaN, NaN is stored.  The stored duration is never negative, whatever \<open>x\<close>.
  Through every sequence of operations of the player control (the rest of the program
  not writing the duration while a client waits) a duration that is not negative stays
  so, so that \<^verbatim>\<open>GetCrossFade\<close> never returns a negative value; and \<^verbatim>\<open>duration >= 0\<close> is
  kept by every sequence that does not hold \<^verbatim>\<open>SetCrossFade(NaN)\<close>.
\<close>

theorem SetCrossFade_clamps:
  "GetCrossFade (SetCrossFade (Finite r) pc) = Finite (max r 0) \<and>
   GetCrossFade (SetCrossFade PlusInfinity pc) = PlusInfinity \<and>
   GetCrossFade (SetCrossFade MinusInfinity pc) = Finite 0 \<and>
   GetCrossFade (SetCrossFade NaN pc) = NaN \<and>
   (x \<noteq> NaN \<longrightarrow> float_le (Finite 0) (GetCrossFade (SetCrossFade x pc))) \<and>
   \<not> float_less (GetCrossFade (SetCrossFade x pc)) (Finite 0) \<and>
   (keeps_cross_fade_duration th \<and> reachable th pc ops pc' \<longrightarrow>
      (\<not> float_less (GetCrossFade pc) (Finite 0) \<longrightarrow>
         \<not> float_less (GetCrossFade pc') (Finite 0)) \<and>
      (float_le (Finite 0) (GetCrossFade pc) \<and> Op_SetCrossFade NaN \<notin> set ops \<longrightarrow>
         float_le (Finite 0) (GetCrossFade pc')))"
  using reachable_not_negative [of th pc ops pc'] reachable_at_least_zero [of th pc ops pc']
    clamp_not_negative [of x] clamp_at_least_zero [of x]
  by (auto simp: GetCrossFade_setters max_def)

lemma example_player_thread_keeps: "keeps_cross_fade_duration example_player_thread"
  by (simp add: keeps_cross_fade_duration_def example_player_thread_def GetCrossFade_def
      split: PlayerCommand.splits)

theorem SetCrossFade_clamps_witness:
  "GetCrossFade (SetCrossFade (Finite (- 3)) example_player) = Finite 0 \<and>
   GetCrossFade (SetCrossFade (Finite 4) example_player) = Finite 4 \<and>
   keeps_cross_fade_duration example_player_thread \<and>
   reachable example_player_thread example_player
     [Op_SetCrossFade (Finite (- 3)), Op_LockPause]
     (idle_add IDLE_PLAYER
        ((SetCrossFade (Finite (- 3)) example_player)\<lparr>state := PlayerState_PAUSE\<rparr>)) \<and>
   float_le (Finite 0)
     (GetCrossFade (idle_add IDLE_PLAYER
        ((SetCrossFade (Finite (- 3)) example_player)\<lparr>state := PlayerState_PAUSE\<rparr>))) \<and>
   reachable example_player_thread example_player [Op_SetCrossFade NaN]
     (SetCrossFade NaN example_player) \<and>
   \<not> float_less (GetCrossFade (SetCrossFade NaN example_player)) (Finite 0)"
proof -
  let ?p1 = "SetCrossFade (Finite (- 3)) example_player"
  let ?p2 = "idle_add IDLE_PLAYER (?p1\<lparr>state := PlayerState_PAUSE\<rparr>)"
  have k: "keeps_cross_fade_duration example_player_thread"
    by (rule example_player_thread_keeps)
  have z: "float_le (Finite 0) (GetCrossFade example_player)"
    "\<not> float_less (GetCrossFade example_player) (Finite 0)"
    by (simp_all add: GetCrossFade_def example_player_def)
  have 1: "perform example_player_thread (Op_SetCrossFade (Finite (- 3))) example_player
             = Some (Inr (), ?p1)"
    by (simp add: perform_def returns_def)
  have w: "WaitCommandLocked example_player_thread (?p1\<lparr>command := PlayerCommand_PAUSE\<rparr>)
             = Some (?p1\<lparr>state := PlayerState_PAUSE\<rparr>)"
    by (simp add: WaitCommandLocked_busy WaitCommandLocked_idle example_player_thread_def
        example_player_def toggled_def SetCrossFade_def idle_add_def)
  have 2: "perform example_player_thread Op_LockPause ?p1 = Some (Inr (), ?p2)"
    using w
    by (simp add: perform_def LockPause_def PauseLocked_def SynchronousCommand_def
        and_then_def returns_def)
       (simp add: SetCrossFade_def idle_add_def example_player_def)
  have 3: "perform example_player_thread (Op_SetCrossFade NaN) example_player
             = Some (Inr (), SetCrossFade NaN example_player)"
    by (simp add: perform_def returns_def)
  have r2: "reachable example_player_thread example_player
              [Op_SetCrossFade (Finite (- 3)), Op_LockPause] ?p2"
    using reachable.step [OF reachable.step [OF reachable.start 1] 2] by simp
  have r3: "reachable example_player_thread example_player [Op_SetCrossFade NaN]
              (SetCrossFade NaN example_player)"
    using reachable.step [OF reachable.start 3] by simp
  have n: "Op_SetCrossFade NaN \<notin> set [Op_SetCrossFade (Finite (- 3)), Op_LockPause]"
    by simp
  show ?thesis
    using SetCrossFade_clamps [of "- 3" example_player "Finite 4" example_player_thread
        "[Op_SetCrossFade (Finite (- 3)), Op_LockPause]" ?p2]
      SetCrossFade_clamps [of 4 example_player NaN example_player_thread
        "[Op_SetCrossFade NaN]" "SetCrossFade NaN example_player"]
      k z r2 r3 n
    by simp
qed

subsection \<open>C7: the command slot is empty exactly when the last command is finished\<close>


















end
